theory Spec2Isabelle
  imports Main "HOL-Library.AList" "HOL-Library.Sublist"
begin

section \<open>JavaScript strings\<close>

text \<open>
  A JavaScript string is a sequence of UTF-16 code units, and \<open>length\<close>, \<open>slice\<close>,
  \<open>includes\<close> and the regular expressions of the sources count and compare code units.
  A string is therefore a list of code units (natural numbers); \<open>str\<close> turns a literal
  of ASCII characters into its code units.
\<close>

type_synonym jsstring = "nat list"

definition str :: "string \<Rightarrow> jsstring" where
  "str s = map of_char s"

text \<open>The class \<open>\s\<close> of ECMAScript regular expressions, also used by \<open>trim\<close>.\<close>

definition is_space :: "nat \<Rightarrow> bool" where
  "is_space c \<longleftrightarrow>
     c \<in> set [0x09, 0x0A, 0x0B, 0x0C, 0x0D, 0x20, 0xA0, 0x1680, 0x2028, 0x2029,
               0x202F, 0x205F, 0x3000, 0xFEFF]
     \<or> (0x2000 \<le> c \<and> c \<le> 0x200A)"

text \<open>
  \<open>toLowerCase\<close> on the Basic Latin and Latin-1 Supplement blocks. The case table of the
  runtime for code units from U+0100 on is not part of the repository; those code units
  are left as they are.
\<close>

definition lower_unit :: "nat \<Rightarrow> nat" where
  "lower_unit c =
     (if (0x41 \<le> c \<and> c \<le> 0x5A) \<or> (0xC0 \<le> c \<and> c \<le> 0xDE \<and> c \<noteq> 0xD7)
      then c + 0x20 else c)"

definition toLowerCase :: "jsstring \<Rightarrow> jsstring" where
  "toLowerCase s = map lower_unit s"

definition startsWith :: "jsstring \<Rightarrow> jsstring \<Rightarrow> bool" where
  "startsWith s p = (take (length p) s = p)"

definition endsWith :: "jsstring \<Rightarrow> jsstring \<Rightarrow> bool" where
  "endsWith s p = (length p \<le> length s \<and> drop (length s - length p) s = p)"

fun includes_str :: "jsstring \<Rightarrow> jsstring \<Rightarrow> bool" where
  "includes_str [] p = (p = [])"
| "includes_str (c # cs) p = (startsWith (c # cs) p \<or> includes_str cs p)"

text \<open>\<open>s.replace(p, r)\<close> with a string pattern: the first occurrence only.\<close>

fun replace_first :: "jsstring \<Rightarrow> jsstring \<Rightarrow> jsstring \<Rightarrow> jsstring" where
  "replace_first [] p r = (if p = [] then r else [])"
| "replace_first (c # cs) p r =
     (if startsWith (c # cs) p then r @ drop (length p) (c # cs)
      else c # replace_first cs p r)"

text \<open>
  \<open>s.replace(/\s+/g, r)\<close>: every maximal run of white space becomes one \<open>r\<close>. The flag
  says whether the previous code unit belonged to a run.
\<close>

fun replace_space_runs :: "bool \<Rightarrow> jsstring \<Rightarrow> jsstring \<Rightarrow> jsstring" where
  "replace_space_runs in_run r [] = []"
| "replace_space_runs in_run r (c # cs) =
     (if is_space c
      then (if in_run then replace_space_runs True r cs else r @ replace_space_runs True r cs)
      else c # replace_space_runs False r cs)"

fun join :: "jsstring \<Rightarrow> jsstring list \<Rightarrow> jsstring" where
  "join sep [] = []"
| "join sep [x] = x"
| "join sep (x # y # ys) = x @ sep @ join sep (y # ys)"

text \<open>The operand of \<open>||\<close> and of \<open>if\<close> on a string that may be \<open>undefined\<close>.\<close>

definition truthy :: "jsstring option \<Rightarrow> bool" where
  "truthy v = (case v of None \<Rightarrow> False | Some s \<Rightarrow> s \<noteq> [])"

section \<open>Ledgers and durable effects\<close>

text \<open>
  The \<open>downloaded\<close>, \<open>processed\<close> and \<open>pushed\<close> objects of the three log files are
  association lists of own properties; an assignment \<open>obj[k] = v\<close> is \<open>AList.update\<close>
  (an existing key keeps its place, a new one goes last) and the test \<open>if (obj[k])\<close>
  is \<open>has_entry\<close>, every stored record being an object. Keys are video ids and file
  names, none of which names a property of \<open>Object.prototype\<close>.
\<close>

definition has_entry :: "(jsstring \<times> 'a) list \<Rightarrow> jsstring \<Rightarrow> bool" where
  "has_entry entries k = (map_of entries k \<noteq> None)"

text \<open>The JSON values that the video resource of the remote API carries.\<close>

datatype jsvalue =
    Undefined
  | Null
  | Boolean bool
  | Number int
  | String jsstring
  | Array "jsvalue list"
  | Object "(jsstring \<times> jsvalue) list"

text \<open>
  What a run does to the world outside the process, in program order. A file write
  or a remote update that throws leaves no event. \<open>'l\<close> is the ledger of the stage,
  \<open>'s\<close> its summary file.
\<close>

datatype ('l, 's) event =
    TranscriptRequested jsstring
  | FileWritten jsstring jsstring
  | LedgerWritten 'l
  | SummaryWritten 's
  | DirectoryRead jsstring
  | VideoRead jsstring
  | VideoUpdated jsstring jsvalue
  | ProcessExit nat

datatype error =
    WriteFailed jsstring
  | ReadFailed jsstring
  | ApiFailed jsstring
  | NotFound jsstring

text \<open>The content of the ledger file after a sequence of events: the last write wins.\<close>

fun durable_ledger :: "'l \<Rightarrow> ('l, 's) event list \<Rightarrow> 'l" where
  "durable_ledger l [] = l"
| "durable_ledger l (LedgerWritten l' # es) = durable_ledger l' es"
| "durable_ledger l (e # es) = durable_ledger l es"

text \<open>
  The artifacts (transcript and description files) after a sequence of events: the
  last write to a path wins. The summary file of the fetch stage has an event of its
  own and is not among them.
\<close>

fun files_after :: "(jsstring \<rightharpoonup> jsstring) \<Rightarrow> ('l, 's) event list \<Rightarrow> (jsstring \<rightharpoonup> jsstring)" where
  "files_after fs [] = fs"
| "files_after fs (FileWritten p c # es) = files_after (fs(p \<mapsto> c)) es"
| "files_after fs (e # es) = files_after fs es"


fun is_file_write :: "('l, 's) event \<Rightarrow> bool" where
  "is_file_write (FileWritten p c) = True"
| "is_file_write e = False"



definition file_writes :: "('l, 's) event list \<Rightarrow> nat" where
  "file_writes es = length (filter is_file_write es)"




section \<open>The fetch stage (index.js)\<close>

record video =
  videoId :: jsstring
  title :: jsstring
  publishedAt :: jsstring
  description :: jsstring

subsection \<open>getPlaylistVideos\<close>

text \<open>
  The parameters of one \<open>playlistItems\<close> request and the page it answers with.
  \<open>youtubeApiRequest\<close> throws when the response is not ok.
\<close>

record playlist_params =
  part :: jsstring
  playlistId :: jsstring
  maxResults :: nat
  pageToken :: "jsstring option"

record playlist_page =
  items :: "video list"
  nextPageToken :: "jsstring option"

datatype api_reply = ApiError jsstring | ApiData playlist_page

text \<open>
  The \<open>for\<close> loop over the items of one page. \<open>Inl\<close> is the early
  \<open>return videos.slice(0, maxResults)\<close>, \<open>Inr\<close> the list after the whole page.
  The caller's maximum is \<open>null\<close> or a count; \<open>maxResults && ...\<close> is false for
  \<open>null\<close> and for \<open>0\<close>.
\<close>

fun push_items :: "nat option \<Rightarrow> video list \<Rightarrow> video list \<Rightarrow> video list + video list" where
  "push_items limit videos [] = Inr videos"
| "push_items limit videos (item # rest) =
     (case limit of
        None \<Rightarrow> push_items limit (videos @ [item]) rest
      | Some m \<Rightarrow>
          if m \<noteq> 0 \<and> m \<le> length (videos @ [item]) then Inl (take m (videos @ [item]))
          else push_items limit (videos @ [item]) rest)"

definition playlist_request :: "jsstring \<Rightarrow> jsstring option \<Rightarrow> playlist_params" where
  "playlist_request pid tok =
     \<lparr>part = str ''snippet'', playlistId = pid, maxResults = 50,
      pageToken = (if truthy tok then tok else None)\<rparr>"

text \<open>
  The \<open>do ... while (pageToken)\<close> loop. It runs as long as the remote side hands out
  tokens, so it is a partial function: \<open>None\<close> stands for a loop that never returns.
  The result carries the requests that were sent, in order.
\<close>

partial_function (option) getPlaylistVideos_loop ::
  "(playlist_params \<Rightarrow> api_reply) \<Rightarrow> jsstring \<Rightarrow> nat option \<Rightarrow> video list \<Rightarrow>
   jsstring option \<Rightarrow> playlist_params list \<Rightarrow>
   (error + video list \<times> playlist_params list) option" where
  "getPlaylistVideos_loop youtubeApiRequest pid limit videos tok sent =
     (case youtubeApiRequest (playlist_request pid tok) of
        ApiError e \<Rightarrow> Some (Inl (ApiFailed e))
      | ApiData data \<Rightarrow>
          (case push_items limit videos (items data) of
             Inl result \<Rightarrow> Some (Inr (result, sent @ [playlist_request pid tok]))
           | Inr videos' \<Rightarrow>
               if truthy (nextPageToken data)
               then getPlaylistVideos_loop youtubeApiRequest pid limit videos'
                      (nextPageToken data) (sent @ [playlist_request pid tok])
               else Some (Inr (videos', sent @ [playlist_request pid tok]))))"

definition getPlaylistVideos ::
  "(playlist_params \<Rightarrow> api_reply) \<Rightarrow> jsstring \<Rightarrow> nat option \<Rightarrow>
   (error + video list \<times> playlist_params list) option" where
  "getPlaylistVideos youtubeApiRequest pid limit =
     getPlaylistVideos_loop youtubeApiRequest pid limit [] None []"

subsection \<open>getTranscript, formatTranscript, sanitizeFilename\<close>

record segment =
  seg_text :: "jsstring option"
  seg_content :: "jsstring option"
  seg_snippet :: "jsstring option"

text \<open>
  What \<open>await fetchTranscript(videoId)\<close> does: it throws, or it resolves to \<open>null\<close>
  or to an array of segments.
\<close>

datatype transcript_reply = Rejected jsstring | Resolved "segment list option"

definition getTranscript :: "(jsstring \<Rightarrow> transcript_reply) \<Rightarrow> jsstring \<Rightarrow> segment list option" where
  "getTranscript fetchTranscript vid =
     (case fetchTranscript vid of
        Rejected e \<Rightarrow> None
      | Resolved None \<Rightarrow> None
      | Resolved (Some transcript) \<Rightarrow> if transcript = [] then None else Some transcript)"

definition segment_text :: "segment \<Rightarrow> jsstring" where
  "segment_text item =
     (if truthy (seg_text item) then the (seg_text item)
      else if truthy (seg_content item) then the (seg_content item)
      else if truthy (seg_snippet item) then the (seg_snippet item)
      else [])"

definition formatTranscript :: "segment list \<Rightarrow> jsstring" where
  "formatTranscript transcript = join (str '' '') (map segment_text transcript)"

text \<open>The characters of the class \<open>[<>:"/\\|?*]\<close>, by code unit.\<close>

definition forbidden_in_filename :: "nat list" where
  "forbidden_in_filename = [0x3C, 0x3E, 0x3A, 0x22, 0x2F, 0x5C, 0x7C, 0x3F, 0x2A]"

definition sanitizeFilename :: "jsstring \<Rightarrow> jsstring" where
  "sanitizeFilename name =
     take 100 (replace_space_runs False (str ''_'')
                 (filter (\<lambda>c. c \<notin> set forbidden_in_filename) name))"

subsection \<open>main\<close>

record log_entry =
  entry_title :: jsstring
  entry_filename :: jsstring
  downloadedAt :: jsstring

record fetch_result =
  result_videoId :: jsstring
  result_title :: jsstring
  hasTranscript :: bool
  filepath :: "jsstring option"

record fetch_summary =
  totalVideos :: nat
  summary_skipped :: nat
  summary_newDownloads :: nat
  transcriptsFound :: nat
  transcriptsNotFound :: nat
  summary_videos :: "fetch_result list"

text \<open>
  The world around one run of the fetch stage: the transcript service, which paths
  \<open>fs.writeFile\<close> can write, the \<open>downloaded\<close> object of the parsed \<open>downloaded.json\<close>
  (\<open>None\<close> when the file is missing or is not JSON), whether that file can be written,
  the clock and the date formatting of the runtime.
\<close>

record fetch_env =
  fetchTranscript :: "jsstring \<Rightarrow> transcript_reply"
  file_writable :: "jsstring \<Rightarrow> bool"
  downloaded_json :: "(jsstring \<times> log_entry) list option"
  downloaded_json_writable :: bool
  toISOString :: jsstring
  toLocaleDateString :: "jsstring \<Rightarrow> jsstring"

record fetch_state =
  downloaded :: "(jsstring \<times> log_entry) list"
  results :: "fetch_result list"
  skipped :: nat
  newDownloads :: nat

definition loadLog :: "(jsstring \<times> log_entry) list option \<Rightarrow> (jsstring \<times> log_entry) list" where
  "loadLog file = (case file of None \<Rightarrow> [] | Some entries \<Rightarrow> entries)"

definition OUTPUT_DIR :: jsstring where
  "OUTPUT_DIR = str ''transcripts''"

text \<open>
  \<open>path.join\<close> of a directory given as \<open>./name\<close> and a file name without separators:
  the normalised directory (\<open>OUTPUT_DIR\<close> and \<open>DESCRIPTIONS_DIR\<close> below are already
  normalised), a separator and the file name.
\<close>

definition path_join :: "jsstring \<Rightarrow> jsstring \<Rightarrow> jsstring" where
  "path_join dir name = dir @ str ''/'' @ name"

definition transcript_filename :: "video \<Rightarrow> jsstring" where
  "transcript_filename v = sanitizeFilename (title v) @ str ''.md''"

definition transcript_markdown :: "fetch_env \<Rightarrow> video \<Rightarrow> segment list \<Rightarrow> jsstring" where
  "transcript_markdown env v transcript =
     join [0x0A]
       [str ''# '' @ title v,
        [],
        str ''- **Video ID:** '' @ videoId v,
        str ''- **URL:** [Watch on YouTube](https://www.youtube.com/watch?v='' @ videoId v @ str '')'',
        str ''- **Published:** '' @ toLocaleDateString env (publishedAt v),
        [],
        str ''## Transcript'',
        [],
        formatTranscript transcript]"

text \<open>
  One turn of the \<open>for\<close> loop of \<open>main\<close> (lines 196 to 257). There is no \<open>try\<close>
  around the body: a failing \<open>fs.writeFile\<close> rejects \<open>main\<close>.
\<close>

definition process_video ::
  "fetch_env \<Rightarrow> fetch_state \<Rightarrow> video \<Rightarrow>
   ((jsstring \<times> log_entry) list, fetch_summary) event list \<times> (error + fetch_state)" where
  "process_video env st v =
     (if has_entry (downloaded st) (videoId v)
      then ([], Inr (st\<lparr>skipped := skipped st + 1\<rparr>))
      else
        (case getTranscript (fetchTranscript env) (videoId v) of
           Some transcript \<Rightarrow>
             (let filename = transcript_filename v;
                  path = path_join OUTPUT_DIR filename;
                  content = transcript_markdown env v transcript
              in if file_writable env path
                 then ([TranscriptRequested (videoId v), FileWritten path content],
                       Inr (st\<lparr>downloaded :=
                                  AList.update (videoId v)
                                    \<lparr>entry_title = title v, entry_filename = filename,
                                     downloadedAt = toISOString env\<rparr>
                                    (downloaded st),
                                results := results st @
                                  [\<lparr>result_videoId = videoId v, result_title = title v,
                                    hasTranscript = True, filepath = Some path\<rparr>],
                                newDownloads := newDownloads st + 1\<rparr>))
                 else ([TranscriptRequested (videoId v)], Inl (WriteFailed path)))
         | None \<Rightarrow>
             ([TranscriptRequested (videoId v)],
              Inr (st\<lparr>results := results st @
                         [\<lparr>result_videoId = videoId v, result_title = title v,
                           hasTranscript = False, filepath = None\<rparr>]\<rparr>))))"

fun process_videos ::
  "fetch_env \<Rightarrow> fetch_state \<Rightarrow> video list \<Rightarrow>
   ((jsstring \<times> log_entry) list, fetch_summary) event list \<times> (error + fetch_state)" where
  "process_videos env st [] = ([], Inr st)"
| "process_videos env st (v # vs) =
     (case process_video env st v of
        (es, Inl e) \<Rightarrow> (es, Inl e)
      | (es, Inr st') \<Rightarrow>
          (case process_videos env st' vs of (es', r) \<Rightarrow> (es @ es', r)))"

definition make_summary :: "video list \<Rightarrow> fetch_state \<Rightarrow> fetch_summary" where
  "make_summary videos st =
     \<lparr>totalVideos = length videos,
      summary_skipped = skipped st,
      summary_newDownloads = newDownloads st,
      transcriptsFound = length (filter hasTranscript (results st)),
      transcriptsNotFound = length (filter (\<lambda>r. \<not> hasTranscript r) (results st)),
      summary_videos = results st\<rparr>"

text \<open>
  \<open>main\<close> from line 178 on, \<open>videos\<close> being what \<open>getPlaylistVideos\<close> returned at
  line 188: load the log, run the loop, save the log once, write the summary. Of the
  summary the counts and the result list are kept; the channel id and the time of the
  run are left out.
\<close>

definition fetch_start :: "fetch_env \<Rightarrow> fetch_state" where
  "fetch_start env =
     \<lparr>downloaded = loadLog (downloaded_json env), results = [], skipped = 0, newDownloads = 0\<rparr>"

definition main_fetch ::
  "fetch_env \<Rightarrow> video list \<Rightarrow>
   ((jsstring \<times> log_entry) list, fetch_summary) event list \<times> (error + fetch_summary)" where
  "main_fetch env videos =
     (case process_videos env (fetch_start env) videos of
        (es, Inl e) \<Rightarrow> (es, Inl e)
      | (es, Inr st) \<Rightarrow>
          if \<not> downloaded_json_writable env
          then (es, Inl (WriteFailed (str ''./downloaded.json'')))
          else if \<not> file_writable env (path_join OUTPUT_DIR (str ''_summary.json''))
          then (es @ [LedgerWritten (downloaded st)],
                Inl (WriteFailed (path_join OUTPUT_DIR (str ''_summary.json''))))
          else (es @ [LedgerWritten (downloaded st), SummaryWritten (make_summary videos st)],
                Inr (make_summary videos st)))"

section \<open>The describe stage (generate-descriptions.cjs)\<close>

subsection \<open>String helpers of this script\<close>

text \<open>
  \<open>s.replace(/p/g, r)\<close> for a pattern \<open>p\<close> that is a literal, non-empty text: the
  occurrences are replaced from left to right and do not overlap; \<open>skip\<close> counts the
  code units of an occurrence still to be passed over.
\<close>

fun replace_all_from :: "nat \<Rightarrow> jsstring \<Rightarrow> jsstring \<Rightarrow> jsstring \<Rightarrow> jsstring" where
  "replace_all_from skip p r [] = []"
| "replace_all_from skip p r (c # cs) =
     (if 0 < skip then replace_all_from (skip - 1) p r cs
      else if startsWith (c # cs) p then r @ replace_all_from (length p - 1) p r cs
      else c # replace_all_from 0 p r cs)"

definition replace_all :: "jsstring \<Rightarrow> jsstring \<Rightarrow> jsstring \<Rightarrow> jsstring" where
  "replace_all p r s = replace_all_from 0 p r s"

definition trim :: "jsstring \<Rightarrow> jsstring" where
  "trim s = rev (dropWhile is_space (rev (dropWhile is_space s)))"

text \<open>\<open>s.indexOf(p)\<close>, with \<open>None\<close> for \<open>-1\<close>.\<close>

fun indexOf :: "jsstring \<Rightarrow> jsstring \<Rightarrow> nat option" where
  "indexOf [] p = (if p = [] then Some 0 else None)"
| "indexOf (c # cs) p =
     (if startsWith (c # cs) p then Some 0
      else (case indexOf cs p of None \<Rightarrow> None | Some i \<Rightarrow> Some (Suc i)))"

text \<open>\<open>new Set(xs)\<close> spread back into an array: first occurrences, in insertion order.\<close>

fun set_spread :: "'a list \<Rightarrow> 'a list \<Rightarrow> 'a list" where
  "set_spread seen [] = seen"
| "set_spread seen (x # xs) =
     (if x \<in> set seen then set_spread seen xs else set_spread (seen @ [x]) xs)"

text \<open>\<open>content.split('\n')[0]?.replace(/^#\s*/, '').trim() || 'Unknown'\<close>.\<close>

definition first_line_title :: "jsstring \<Rightarrow> jsstring" where
  "first_line_title content =
     (let line = takeWhile (\<lambda>c. c \<noteq> 0x0A) content;
          stripped = (case line of
                        [] \<Rightarrow> []
                      | c # cs \<Rightarrow> if c = 0x23 then dropWhile is_space cs else c # cs);
          t = trim stripped
      in if t = [] then str ''Unknown'' else t)"

subsection \<open>decodeHtml, parseTranscript\<close>

definition decodeHtml :: "jsstring \<Rightarrow> jsstring" where
  "decodeHtml t =
     replace_all (str ''&lt;'') (str ''<'')
      (replace_all (str ''&gt;'') (str ''>'')
       (replace_all (str ''&quot;'') [0x22]
        (replace_all (str ''&#39;'') [0x27]
         (replace_all (str ''&amp;amp;'') (str ''&'')
          (replace_all (str ''&amp;lt;'') (str ''<'')
           (replace_all (str ''&amp;gt;'') (str ''>'')
            (replace_all (str ''&amp;quot;'') [0x22]
             (replace_all (str ''&amp;#39;'') [0x27] t))))))))"

text \<open>
  Of the object that \<open>parseTranscript\<close> returns, \<open>main\<close> reads the title and the
  transcript; the video id and the URL it also matches are not used by this script.
\<close>

record transcript_metadata =
  meta_title :: jsstring
  meta_transcript :: jsstring

definition parseTranscript :: "jsstring \<Rightarrow> transcript_metadata" where
  "parseTranscript content =
     \<lparr>meta_title = decodeHtml (first_line_title content),
      meta_transcript =
        decodeHtml (case indexOf content (str ''## Transcript'') of
                      None \<Rightarrow> []
                    | Some transcriptStart \<Rightarrow> trim (drop (transcriptStart + 14) content))\<rparr>"

subsection \<open>categorizeVideo\<close>

record categorized =
  category :: jsstring
  tags :: "jsstring list"

text \<open>One \<open>if (...) tags.push(...)\<close> of the classifier.\<close>

definition push_if :: "bool \<Rightarrow> jsstring list \<Rightarrow> jsstring list \<Rightarrow> jsstring list" where
  "push_if cond new ts = (if cond then ts @ new else ts)"

definition categorizeVideo :: "jsstring \<Rightarrow> jsstring \<Rightarrow> categorized" where
  "categorizeVideo title_text transcript =
     (let titleLower = toLowerCase title_text;
          contentLower = take 2000 (toLowerCase transcript);
          in_title = (\<lambda>w. includes_str titleLower (str w));
          in_content = (\<lambda>w. includes_str contentLower (str w));
          is_tutorial = (in_title ''how to'' \<or> in_title ''tutorial'' \<or> in_title ''recipe''
                         \<or> in_title ''guide'');
          is_vlog = (in_title ''vlog'' \<or> in_title ''rambl'' \<or> in_title ''update''
                     \<or> in_title ''day '');
          t0 = [str ''miniaturepainting'', str ''hobbypainting''];
          t1 = push_if is_tutorial [str ''hobbytutorial''] t0;
          t2 = push_if is_vlog [str ''hobbyvlog''] t1;
          t3 = push_if (in_content ''warmachine'' \<or> in_content ''crucible guard''
                        \<or> in_content ''fifth division'' \<or> in_title ''warmachine'')
                 [str ''warmachine''] t2;
          t4 = push_if (in_content ''trench crusade'' \<or> in_title ''trench crusade'')
                 [str ''trenchcrusade''] t3;
          t5 = push_if (in_content ''dolmenwood'' \<or> in_title ''dolmenwood'')
                 [str ''dolmenwood'', str ''ttrpg''] t4;
          t6 = push_if (in_content ''warhammer'' \<or> in_content ''40k'' \<or> in_content ''old world'')
                 [str ''warhammer''] t5;
          t7 = push_if (in_content ''speed paint'' \<or> in_content ''speedpaint''
                        \<or> in_content ''contrast paint'')
                 [str ''speedpaint''] t6;
          t8 = push_if (in_content ''nmm'' \<or> in_content ''non-metal'' \<or> in_content ''nonmetal'')
                 [str ''nmm''] t7;
          t9 = push_if (in_content ''dry brush'' \<or> in_content ''drybrush'')
                 [str ''drybrushing''] t8;
          t10 = push_if (in_content ''3d print'' \<or> in_content ''resin'') [str ''3dprinting''] t9;
          t11 = push_if (in_content ''terrain'' \<or> in_content ''board'')
                  [str ''wargamingterrain''] t10;
          t12 = push_if (in_content ''airbrush'') [str ''airbrush''] t11;
          t13 = push_if (in_content ''goblin'' \<or> in_content ''orc'') [str ''orcsandgoblins''] t12
      in \<lparr>category = (if is_vlog then str ''vlog''
                      else if is_tutorial then str ''tutorial'' else str ''vlog''),
          tags = take 5 (set_spread [] t13)\<rparr>)"

subsection \<open>generateSummary, generateDescription\<close>

text \<open>\<open>title.replace(/\.$/, '').replace(/\.\.$/, '')\<close>.\<close>

definition cleanTitle :: "jsstring \<Rightarrow> jsstring" where
  "cleanTitle title_text =
     (let t1 = (if endsWith title_text (str ''.'') then butlast title_text else title_text)
      in if endsWith t1 (str ''..'') then butlast (butlast t1) else t1)"

definition generateSummary :: "jsstring \<Rightarrow> jsstring \<Rightarrow> jsstring \<Rightarrow> jsstring" where
  "generateSummary title_text transcript cat =
     (if cat = str ''tutorial''
      then str ''Learn '' @ replace_first (toLowerCase (cleanTitle title_text)) (str ''how to '') []
           @ str '' in this step-by-step hobby tutorial. Quick tips and techniques you can apply to your own miniatures today.''
      else cleanTitle title_text
           @ str '' - Join me in today'' @ [0x27]
           @ str ''s hobby session as I share tips, progress, and thoughts on miniature painting and tabletop gaming.'')"

text \<open>
  The link block of both description generators. The globe sign U+1F310 in front of
  it is the surrogate pair D83C DF10.
\<close>

definition link_block :: jsstring where
  "link_block =
     str ''---'' @ [0x0A]
     @ [0xD83C, 0xDF10] @ str '' Website & Blog: https://hobbynomicon.com'' @ [0x0A]
     @ str ''---'' @ [0x0A, 0x0A]"

definition generateDescription :: "transcript_metadata \<Rightarrow> jsstring \<Rightarrow> jsstring list \<Rightarrow> jsstring \<Rightarrow> jsstring" where
  "generateDescription metadata cat ts summary =
     summary @ [0x0A, 0x0A] @ link_block
     @ join (str '' '') (map (\<lambda>t. str ''#'' @ t) ts) @ [0x0A]"

subsection \<open>main\<close>

record processed_entry =
  descriptionFile :: jsstring
  entry_category :: jsstring
  entry_tags :: "jsstring list"
  processedAt :: jsstring

record describe_log =
  log_description :: jsstring
  processed :: "(jsstring \<times> processed_entry) list"
  lastUpdated :: "jsstring option"
  totalProcessed :: "nat option"
  totalTranscripts :: "nat option"

text \<open>
  The world around one run: the entries of \<open>./transcripts\<close> in the order \<open>readdirSync\<close>
  lists them, each with its content (\<open>None\<close> when \<open>readFileSync\<close> throws on it, as for
  a directory named like a transcript), or \<open>None\<close> when the directory cannot be read;
  which paths can be written; the parsed \<open>descriptions_processed.json\<close>; the clock.
\<close>

record describe_env =
  transcripts_dir :: "(jsstring \<times> jsstring option) list option"
  description_writable :: "jsstring \<Rightarrow> bool"
  processed_json :: "describe_log option"
  processed_json_writable :: bool
  describe_clock :: jsstring

record describe_state =
  dlog :: describe_log
  processed_count :: nat
  skipped_count :: nat

record describe_summary =
  summary_processed :: nat
  summary_skipped_files :: nat
  summary_total :: nat

definition loadDescribeLog :: "describe_log option \<Rightarrow> describe_log" where
  "loadDescribeLog file =
     (case file of
        None \<Rightarrow> \<lparr>log_description = str ''Tracks which transcripts have been processed into YouTube descriptions'',
                  processed = [], lastUpdated = None, totalProcessed = None,
                  totalTranscripts = None\<rparr>
      | Some l \<Rightarrow> l)"

definition DESCRIPTIONS_DIR :: jsstring where
  "DESCRIPTIONS_DIR = str ''descriptions''"

definition description_filename :: "jsstring \<Rightarrow> jsstring" where
  "description_filename file = replace_first file (str ''.md'') (str ''_description.txt'')"

definition description_of :: "jsstring \<Rightarrow> categorized \<times> jsstring" where
  "description_of content =
     (let metadata = parseTranscript content;
          c = categorizeVideo (meta_title metadata) (meta_transcript metadata);
          summary = generateSummary (meta_title metadata) (meta_transcript metadata) (category c)
      in (c, generateDescription metadata (category c) (tags c) summary))"

text \<open>
  One turn of the \<open>for\<close> loop of \<open>main\<close> (lines 177 to 208). The body after the
  ledger check is inside \<open>try\<close>: a read or a write that throws is logged and the loop
  goes on with the state as it was.
\<close>

definition describe_file ::
  "describe_env \<Rightarrow> describe_state \<Rightarrow> jsstring \<times> jsstring option \<Rightarrow>
   (describe_log, unit) event list \<times> describe_state" where
  "describe_file env st f =
     (case f of (file, readable) \<Rightarrow>
        if has_entry (processed (dlog st)) file
        then ([], st\<lparr>skipped_count := skipped_count st + 1\<rparr>)
        else
          (case readable of
             None \<Rightarrow> ([], st)
           | Some content \<Rightarrow>
               (case description_of content of (c, text) \<Rightarrow>
                  let descFilename = description_filename file;
                      path = path_join DESCRIPTIONS_DIR descFilename
                  in if description_writable env path
                     then ([FileWritten path text],
                           st\<lparr>dlog := (dlog st)\<lparr>processed :=
                                   AList.update file
                                     \<lparr>descriptionFile = descFilename, entry_category = category c,
                                      entry_tags = tags c, processedAt = describe_clock env\<rparr>
                                     (processed (dlog st))\<rparr>,
                              processed_count := processed_count st + 1\<rparr>)
                     else ([], st))))"

fun describe_files ::
  "describe_env \<Rightarrow> describe_state \<Rightarrow> (jsstring \<times> jsstring option) list \<Rightarrow>
   (describe_log, unit) event list \<times> describe_state" where
  "describe_files env st [] = ([], st)"
| "describe_files env st (f # fs) =
     (case describe_file env st f of (es, st') \<Rightarrow>
        (case describe_files env st' fs of (es', st'') \<Rightarrow> (es @ es', st'')))"

text \<open>\<open>saveLog\<close> stamps the log object and writes it.\<close>

definition stamp_describe_log :: "jsstring \<Rightarrow> describe_log \<Rightarrow> describe_log" where
  "stamp_describe_log now l =
     l\<lparr>lastUpdated := Some now, totalProcessed := Some (length (processed l))\<rparr>"

definition describe_start :: "describe_env \<Rightarrow> describe_state" where
  "describe_start env =
     \<lparr>dlog = loadDescribeLog (processed_json env), processed_count = 0, skipped_count = 0\<rparr>"

definition main_describe ::
  "describe_env \<Rightarrow> (describe_log, unit) event list \<times> (error + describe_summary)" where
  "main_describe env =
     (case transcripts_dir env of
        None \<Rightarrow> ([], Inl (ReadFailed (str ''./transcripts'')))
      | Some entries \<Rightarrow>
          (let files = filter (\<lambda>f. endsWith (fst f) (str ''.md'')) entries in
           case describe_files env (describe_start env) files of
             (es, st) \<Rightarrow>
               let saved = stamp_describe_log (describe_clock env)
                             ((dlog st)\<lparr>totalTranscripts := Some (length files)\<rparr>)
               in if processed_json_writable env
                  then (DirectoryRead (str ''./transcripts'') # es @ [LedgerWritten saved],
                        Inr \<lparr>summary_processed = processed_count st,
                             summary_skipped_files = skipped_count st,
                             summary_total = length files\<rparr>)
                  else (DirectoryRead (str ''./transcripts'') # es,
                        Inl (WriteFailed (str ''./descriptions_processed.json'')))))"

section \<open>The description tool of the MCP server (generate_description)\<close>

record timestamp =
  ts_time :: jsstring
  ts_label :: jsstring

record description_args =
  arg_summary :: jsstring
  arg_timestamps :: "timestamp list option"
  arg_tags :: "jsstring list option"

definition hashtag_line :: "jsstring list option \<Rightarrow> jsstring" where
  "hashtag_line ts =
     (case ts of
        None \<Rightarrow> str ''#miniaturepainting #hobbypainting'' @ [0x0A]
      | Some given \<Rightarrow>
          if given = [] then str ''#miniaturepainting #hobbypainting'' @ [0x0A]
          else join (str '' '')
                 (map (\<lambda>t. str ''#'' @ toLowerCase (replace_space_runs False [] t)) (take 3 given))
               @ [0x0A])"

definition timestamps_block :: "timestamp list option \<Rightarrow> jsstring" where
  "timestamps_block tss =
     (case tss of
        None \<Rightarrow> []
      | Some given \<Rightarrow>
          if given = [] then []
          else str ''TIMESTAMPS'' @ [0x0A]
               @ concat (map (\<lambda>ts. ts_time ts @ str '' '' @ ts_label ts @ [0x0A]) given)
               @ [0x0A])"

definition generate_description :: "description_args \<Rightarrow> jsstring" where
  "generate_description args =
     arg_summary args @ [0x0A, 0x0A] @ timestamps_block (arg_timestamps args)
     @ link_block @ hashtag_line (arg_tags args)"

section \<open>The publish stage (push-descriptions.cjs)\<close>

subsection \<open>Command line\<close>

definition DRY_RUN :: "jsstring list \<Rightarrow> bool" where
  "DRY_RUN args = (str ''--dry-run'' \<in> set args)"

definition LIST_ONLY :: "jsstring list \<Rightarrow> bool" where
  "LIST_ONLY args = (str ''--list'' \<in> set args)"

text \<open>
  \<open>args.includes('--video') ? args[args.indexOf('--video') + 1] : null\<close>: the argument
  after the first \<open>--video\<close>, \<open>undefined\<close> when there is none.
\<close>

fun SINGLE_VIDEO :: "jsstring list \<Rightarrow> jsstring option" where
  "SINGLE_VIDEO [] = None"
| "SINGLE_VIDEO (a # rest) =
     (if a = str ''--video'' then (case rest of [] \<Rightarrow> None | b # others \<Rightarrow> Some b)
      else SINGLE_VIDEO rest)"

subsection \<open>Reading the transcripts\<close>

text \<open>
  \<open>content.match(/\*\*Video ID:\*\*\s*(\S+)/)\<close>: at the leftmost occurrence of the
  label that is followed, after any white space, by at least one other code unit, the
  group is the maximal run of code units that are not white space.
\<close>

fun match_video_id :: "jsstring \<Rightarrow> jsstring option" where
  "match_video_id [] = None"
| "match_video_id (c # cs) =
     (if startsWith (c # cs) (str ''**Video ID:**'')
      then (let rest = dropWhile is_space (drop (length (str ''**Video ID:**'')) (c # cs));
                vid = takeWhile (\<lambda>x. \<not> is_space x) rest
            in if vid \<noteq> [] then Some vid else match_video_id cs)
      else match_video_id cs)"

definition getVideoIdFromTranscript :: "jsstring \<Rightarrow> jsstring option" where
  "getVideoIdFromTranscript content = match_video_id content"

definition getTitleFromTranscript :: "jsstring \<Rightarrow> jsstring" where
  "getTitleFromTranscript content = first_line_title content"

subsection \<open>The push log and the update list\<close>

record pushed_entry =
  pushed_title :: jsstring
  pushed_transcript :: jsstring
  pushed_descriptionFile :: jsstring
  pushedAt :: jsstring

record push_log =
  push_log_description :: jsstring
  pushed :: "(jsstring \<times> pushed_entry) list"
  push_lastUpdated :: "jsstring option"
  totalPushed :: "nat option"

record update =
  upd_videoId :: jsstring
  upd_title :: jsstring
  upd_transcript :: jsstring
  upd_descriptionFile :: jsstring
  upd_description :: jsstring

definition loadPushLog :: "push_log option \<Rightarrow> push_log" where
  "loadPushLog file =
     (case file of
        None \<Rightarrow> \<lparr>push_log_description = str ''Tracks which descriptions have been pushed to YouTube'',
                  pushed = [], push_lastUpdated = None, totalPushed = None\<rparr>
      | Some l \<Rightarrow> l)"

definition TRANSCRIPTS_DIR :: jsstring where
  "TRANSCRIPTS_DIR = str ''transcripts''"

text \<open>
  The loop of \<open>buildUpdateList\<close> over the entries of \<open>./transcripts\<close> (file name and
  content, \<open>None\<close> when \<open>readFileSync\<close> throws on the file) with the entries of
  \<open>./descriptions\<close> at hand. Each \<open>continue\<close> of the source is one branch that drops
  the transcript. The reads are outside any \<open>try\<close>: a transcript that cannot be read
  (\<open>getVideoIdFromTranscript\<close> reads it first) or an existing description file that
  cannot be read makes \<open>buildUpdateList\<close> throw.
\<close>

fun buildUpdateList_loop ::
  "jsstring option \<Rightarrow> push_log \<Rightarrow> (jsstring \<times> jsstring option) list \<Rightarrow>
   (jsstring \<times> jsstring option) list \<Rightarrow> error + update list" where
  "buildUpdateList_loop single pushLog descriptions [] = Inr []"
| "buildUpdateList_loop single pushLog descriptions ((transcript, readable) # rest) =
     (case readable of
        None \<Rightarrow> Inl (ReadFailed (path_join TRANSCRIPTS_DIR transcript))
      | Some content \<Rightarrow>
          (case getVideoIdFromTranscript content of
             None \<Rightarrow> buildUpdateList_loop single pushLog descriptions rest
           | Some vid \<Rightarrow>
               if has_entry (pushed pushLog) vid \<and> \<not> truthy single
               then buildUpdateList_loop single pushLog descriptions rest
               else if truthy single \<and> Some vid \<noteq> single
               then buildUpdateList_loop single pushLog descriptions rest
               else
                 (case map_of descriptions (description_filename transcript) of
                    None \<Rightarrow> buildUpdateList_loop single pushLog descriptions rest
                  | Some None \<Rightarrow>
                      Inl (ReadFailed
                             (path_join DESCRIPTIONS_DIR (description_filename transcript)))
                  | Some (Some text) \<Rightarrow>
                      (case buildUpdateList_loop single pushLog descriptions rest of
                         Inl e \<Rightarrow> Inl e
                       | Inr updates \<Rightarrow>
                           Inr (\<lparr>upd_videoId = vid,
                                 upd_title = getTitleFromTranscript content,
                                 upd_transcript = transcript,
                                 upd_descriptionFile = description_filename transcript,
                                 upd_description = text\<rparr> # updates)))))"

definition buildUpdateList ::
  "jsstring option \<Rightarrow> push_log \<Rightarrow> (jsstring \<times> jsstring option) list \<Rightarrow>
   (jsstring \<times> jsstring option) list \<Rightarrow> error + update list" where
  "buildUpdateList single pushLog descriptions transcripts =
     buildUpdateList_loop single pushLog descriptions
       (filter (\<lambda>f. endsWith (fst f) (str ''.md'')) transcripts)"

subsection \<open>The remote video resource\<close>

text \<open>The operand of \<open>!\<close> and \<open>||\<close> on a value of the remote resource.\<close>

fun js_truthy :: "jsvalue \<Rightarrow> bool" where
  "js_truthy Undefined = False"
| "js_truthy Null = False"
| "js_truthy (Boolean b) = b"
| "js_truthy (Number n) = (n \<noteq> 0)"
| "js_truthy (String s) = (s \<noteq> [])"
| "js_truthy (Array xs) = True"
| "js_truthy (Object fs) = True"

text \<open>\<open>value.name\<close> for a property name that no prototype defines.\<close>

fun get_prop :: "jsvalue \<Rightarrow> jsstring \<Rightarrow> jsvalue" where
  "get_prop (Object fs) name = (case map_of fs name of None \<Rightarrow> Undefined | Some v \<Rightarrow> v)"
| "get_prop v name = Undefined"

text \<open>
  \<open>videos.list\<close> throws or resolves to the snippets of the items it found;
  \<open>videos.update\<close> throws or resolves to the data of the response.
\<close>

datatype list_reply = ListRejected jsstring | ListResolved "jsvalue list"

datatype update_reply = UpdateRejected jsstring | UpdateResolved jsvalue

text \<open>
  The world around one run of the publish stage: the command line; whether the token
  file and a client secret exist, and whether the client can be built from them (both
  files can be read and are JSON, and the client secret has an \<open>installed\<close> or a
  \<open>web\<close> member); the entries of \<open>./transcripts\<close> as \<open>readdirSync\<close>
  lists them, each with its content (\<open>None\<close> when \<open>readFileSync\<close> throws on it), or
  \<open>None\<close> when the directory cannot be read; the files that exist in
  \<open>./descriptions\<close>, each with its content (\<open>None\<close> when it cannot be read); the
  parsed push log; for the \<open>n\<close>-th turn of the loop of \<open>main\<close>, counted
  from 0, whether the push log can be written in that turn; the remote side; the clock.
\<close>

record push_env =
  argv :: "jsstring list"
  tokens_exist :: bool
  client_secret_found :: bool
  credentials_parse :: bool
  transcript_files :: "(jsstring \<times> jsstring option) list option"
  description_files :: "(jsstring \<times> jsstring option) list"
  pushed_json :: "push_log option"
  pushed_json_writable :: "nat \<Rightarrow> bool"
  videos_list :: "jsstring \<Rightarrow> list_reply"
  videos_update :: "jsvalue \<Rightarrow> update_reply"
  push_clock :: jsstring

definition getVideoDetails :: "push_env \<Rightarrow> jsstring \<Rightarrow> error + jsvalue" where
  "getVideoDetails env vid =
     (case videos_list env vid of
        ListRejected e \<Rightarrow> Inl (ApiFailed e)
      | ListResolved found \<Rightarrow> (case found of [] \<Rightarrow> Inr Null | item # others \<Rightarrow> Inr item))"

text \<open>The \<open>requestBody\<close> of \<open>videos.update\<close>.\<close>

definition update_snippet :: "jsvalue \<Rightarrow> jsstring \<Rightarrow> (jsstring \<times> jsvalue) list" where
  "update_snippet currentSnippet newDescription =
     [(str ''title'', get_prop currentSnippet (str ''title'')),
      (str ''description'', String newDescription),
      (str ''categoryId'', get_prop currentSnippet (str ''categoryId'')),
      (str ''tags'', (if js_truthy (get_prop currentSnippet (str ''tags''))
                      then get_prop currentSnippet (str ''tags'') else Array []))]"

definition requestBody :: "jsstring \<Rightarrow> jsvalue \<Rightarrow> jsstring \<Rightarrow> jsvalue" where
  "requestBody vid currentSnippet newDescription =
     Object [(str ''id'', String vid),
             (str ''snippet'', Object (update_snippet currentSnippet newDescription))]"

definition updateVideoDescription ::
  "push_env \<Rightarrow> jsstring \<Rightarrow> jsstring \<Rightarrow> (push_log, unit) event list \<times> (error + jsvalue)" where
  "updateVideoDescription env vid newDescription =
     (case getVideoDetails env vid of
        Inl e \<Rightarrow> ([VideoRead vid], Inl e)
      | Inr currentSnippet \<Rightarrow>
          if \<not> js_truthy currentSnippet then ([VideoRead vid], Inl (NotFound vid))
          else
            (case videos_update env (requestBody vid currentSnippet newDescription) of
               UpdateRejected e \<Rightarrow> ([VideoRead vid], Inl (ApiFailed e))
             | UpdateResolved data \<Rightarrow>
                 ([VideoRead vid,
                   VideoUpdated vid (requestBody vid currentSnippet newDescription)],
                  Inr data)))"

subsection \<open>main\<close>

record push_state =
  pushLog :: push_log
  successCount :: nat
  errorCount :: nat

datatype push_outcome =
    NoVideos
  | Listed "update list"
  | Exited nat
  | Rejection error
  | Summary nat nat nat

text \<open>The number of the turn that the loop is about to make, counted from 0.\<close>

definition turn :: "push_state \<Rightarrow> nat" where
  "turn st = successCount st + errorCount st"

definition stamp_push_log :: "jsstring \<Rightarrow> push_log \<Rightarrow> push_log" where
  "stamp_push_log now l = l\<lparr>push_lastUpdated := Some now, totalPushed := Some (length (pushed l))\<rparr>"

definition record_push :: "push_env \<Rightarrow> update \<Rightarrow> push_log \<Rightarrow> push_log" where
  "record_push env u l =
     stamp_push_log (push_clock env)
       (l\<lparr>pushed := AList.update (upd_videoId u)
                       \<lparr>pushed_title = upd_title u, pushed_transcript = upd_transcript u,
                        pushed_descriptionFile = upd_descriptionFile u,
                        pushedAt = push_clock env\<rparr>
                       (pushed l)\<rparr>)"

text \<open>
  One turn of the \<open>for\<close> loop of \<open>main\<close> (lines 217 to 253). Every turn adds one to
  one of the two counters, so their sum is the number of the turn. \<open>savePushLog\<close> is
  inside the \<open>try\<close>: when it throws, the entry stays in the log object in memory, the
  item counts as an error, and the next save that succeeds writes the entry too.
\<close>

definition push_update ::
  "push_env \<Rightarrow> push_state \<Rightarrow> update \<Rightarrow> (push_log, unit) event list \<times> push_state" where
  "push_update env st u =
     (if DRY_RUN (argv env) then ([], st\<lparr>successCount := successCount st + 1\<rparr>)
      else
        (case updateVideoDescription env (upd_videoId u) (upd_description u) of
           (es, Inl e) \<Rightarrow> (es, st\<lparr>errorCount := errorCount st + 1\<rparr>)
         | (es, Inr data) \<Rightarrow>
             if pushed_json_writable env (turn st)
             then (es @ [LedgerWritten (record_push env u (pushLog st))],
                   st\<lparr>pushLog := record_push env u (pushLog st),
                      successCount := successCount st + 1\<rparr>)
             else (es, st\<lparr>pushLog := record_push env u (pushLog st),
                           errorCount := errorCount st + 1\<rparr>)))"

fun push_updates ::
  "push_env \<Rightarrow> push_state \<Rightarrow> update list \<Rightarrow> (push_log, unit) event list \<times> push_state" where
  "push_updates env st [] = ([], st)"
| "push_updates env st (u # us) =
     (case push_update env st u of (es, st') \<Rightarrow>
        (case push_updates env st' us of (es', st'') \<Rightarrow> (es @ es', st'')))"

text \<open>
  \<open>getAuthClient\<close> ends the process with status 1 when the token file or the client
  secret is missing, and throws when the client cannot be built from the two files;
  \<open>Inr None\<close> is a client that was built.
\<close>

definition getAuthClient :: "push_env \<Rightarrow> error + nat option" where
  "getAuthClient env =
     (if \<not> tokens_exist env then Inr (Some 1)
      else if \<not> client_secret_found env then Inr (Some 1)
      else if \<not> credentials_parse env then Inl (ReadFailed (str ''credentials''))
      else Inr None)"

definition push_start :: "push_env \<Rightarrow> push_state" where
  "push_start env =
     \<lparr>pushLog = loadPushLog (pushed_json env), successCount = 0, errorCount = 0\<rparr>"

text \<open>
  Lines 192 and 193 of \<open>main\<close>: the push log is loaded and the update list is built.
  \<open>readdirSync\<close> and the reads of \<open>buildUpdateList\<close> are outside any \<open>try\<close>, so a
  failure there rejects \<open>main\<close>.
\<close>

definition pending_updates :: "push_env \<Rightarrow> error + update list" where
  "pending_updates env =
     (case transcript_files env of
        None \<Rightarrow> Inl (ReadFailed (str ''./transcripts''))
      | Some entries \<Rightarrow>
          buildUpdateList (SINGLE_VIDEO (argv env)) (loadPushLog (pushed_json env))
            (description_files env) entries)"

text \<open>The listing of the transcript directory, when it succeeds, is the first event.\<close>

definition listing :: "push_env \<Rightarrow> (push_log, unit) event list" where
  "listing env =
     (case transcript_files env of
        None \<Rightarrow> []
      | Some entries \<Rightarrow> [DirectoryRead (str ''./transcripts'')])"

definition main_push :: "push_env \<Rightarrow> (push_log, unit) event list \<times> push_outcome" where
  "main_push env =
     (case pending_updates env of
        Inl e \<Rightarrow> (listing env, Rejection e)
      | Inr updates \<Rightarrow>
          if updates = [] then (listing env, NoVideos)
          else if LIST_ONLY (argv env) then (listing env, Listed updates)
          else
            (case getAuthClient env of
               Inl e \<Rightarrow> (listing env, Rejection e)
             | Inr (Some status) \<Rightarrow> (listing env @ [ProcessExit status], Exited status)
             | Inr None \<Rightarrow>
                 (case push_updates env (push_start env) updates of
                    (es, st) \<Rightarrow>
                      (listing env @ es,
                       Summary (successCount st) (errorCount st) (length updates)))))"

section \<open>Example worlds and notions used by the properties\<close>

subsection \<open>Worlds of the fetch stage\<close>

definition hello_segment :: segment where
  "hello_segment = \<lparr>seg_text = Some (str ''hello''), seg_content = None, seg_snippet = None\<rparr>"

definition video_A :: video where
  "video_A = \<lparr>videoId = str ''A'', title = str ''Alpha'', publishedAt = str ''2025-01-13'',
              description = []\<rparr>"

definition video_B :: video where
  "video_B = \<lparr>videoId = str ''B'', title = str ''Beta'', publishedAt = str ''2025-01-14'',
              description = []\<rparr>"

definition video_C :: video where
  "video_C = \<lparr>videoId = str ''C'', title = str ''Gamma'', publishedAt = str ''2025-01-15'',
              description = []\<rparr>"

text \<open>Video B has no captions; every file can be written; there is no log file yet.\<close>

definition env_B_empty :: fetch_env where
  "env_B_empty =
     \<lparr>fetchTranscript = (\<lambda>vid. if vid = str ''B'' then Resolved (Some [])
                                else Resolved (Some [hello_segment])),
      file_writable = (\<lambda>p. True),
      downloaded_json = None,
      downloaded_json_writable = True,
      toISOString = str ''2025-02-01T00:00:00.000Z'',
      toLocaleDateString = (\<lambda>d. d)\<rparr>"

text \<open>The same world, but the request for the transcript of B throws.\<close>

definition env_B_rejected :: fetch_env where
  "env_B_rejected =
     env_B_empty\<lparr>fetchTranscript := (\<lambda>vid. if vid = str ''B'' then Rejected (str ''timeout'')
                                              else Resolved (Some [hello_segment]))\<rparr>"

definition empty_state :: fetch_state where
  "empty_state = \<lparr>downloaded = [], results = [], skipped = 0, newDownloads = 0\<rparr>"

definition ledger_AC :: "(jsstring \<times> log_entry) list" where
  "ledger_AC =
     [(str ''A'', \<lparr>entry_title = str ''Alpha'', entry_filename = transcript_filename video_A,
                   downloadedAt = toISOString env_B_empty\<rparr>),
      (str ''C'', \<lparr>entry_title = str ''Gamma'', entry_filename = transcript_filename video_C,
                   downloadedAt = toISOString env_B_empty\<rparr>)]"

definition events_ABC :: "((jsstring \<times> log_entry) list, fetch_summary) event list" where
  "events_ABC =
     [TranscriptRequested (str ''A''),
      FileWritten (path_join OUTPUT_DIR (transcript_filename video_A))
        (transcript_markdown env_B_empty video_A [hello_segment]),
      TranscriptRequested (str ''B''),
      TranscriptRequested (str ''C''),
      FileWritten (path_join OUTPUT_DIR (transcript_filename video_C))
        (transcript_markdown env_B_empty video_C [hello_segment])]"

definition state_ABC :: fetch_state where
  "state_ABC =
     \<lparr>downloaded = ledger_AC,
      results =
        [\<lparr>result_videoId = str ''A'', result_title = str ''Alpha'', hasTranscript = True,
          filepath = Some (path_join OUTPUT_DIR (transcript_filename video_A))\<rparr>,
         \<lparr>result_videoId = str ''B'', result_title = str ''Beta'', hasTranscript = False,
          filepath = None\<rparr>,
         \<lparr>result_videoId = str ''C'', result_title = str ''Gamma'', hasTranscript = True,
          filepath = Some (path_join OUTPUT_DIR (transcript_filename video_C))\<rparr>],
      skipped = 0, newDownloads = 2\<rparr>"

definition env_second_run :: fetch_env where
  "env_second_run = env_B_empty\<lparr>downloaded_json := Some ledger_AC\<rparr>"

definition state_second_run :: fetch_state where
  "state_second_run =
     \<lparr>downloaded = ledger_AC,
      results = [\<lparr>result_videoId = str ''B'', result_title = str ''Beta'',
                  hasTranscript = False, filepath = None\<rparr>],
      skipped = 2, newDownloads = 0\<rparr>"

subsection \<open>A remote catalog served in pages\<close>

text \<open>
  The remote side serves a finite chain of pages from the token \<open>tok\<close> on: each page
  but the last carries the token under which the next page is handed out.
\<close>

fun serves ::
  "(playlist_params \<Rightarrow> api_reply) \<Rightarrow> jsstring \<Rightarrow> jsstring option \<Rightarrow> playlist_page list \<Rightarrow> bool" where
  "serves api pid tok [] = False"
| "serves api pid tok [p] =
     (api (playlist_request pid tok) = ApiData p \<and> \<not> truthy (nextPageToken p))"
| "serves api pid tok (p # q # ps) =
     (api (playlist_request pid tok) = ApiData p \<and> truthy (nextPageToken p)
      \<and> serves api pid (nextPageToken p) (q # ps))"

text \<open>
  How many pages are needed until \<open>m\<close> items have arrived, or all of them when the
  catalog has fewer than \<open>m\<close> items.
\<close>

fun pages_fetched :: "nat \<Rightarrow> playlist_page list \<Rightarrow> nat" where
  "pages_fetched m [] = 0"
| "pages_fetched m (p # ps) =
     (if m \<le> length (items p) \<or> ps = [] then 1
      else Suc (pages_fetched (m - length (items p)) ps))"

definition all_items :: "playlist_page list \<Rightarrow> video list" where
  "all_items pages = concat (map items pages)"

definition two_pages :: "playlist_page list" where
  "two_pages =
     [\<lparr>items = [video_A, video_B], nextPageToken = Some (str ''next'')\<rparr>,
      \<lparr>items = [video_C], nextPageToken = None\<rparr>]"

definition one_page_api :: "playlist_params \<Rightarrow> api_reply" where
  "one_page_api params = ApiData \<lparr>items = [video_A, video_B], nextPageToken = None\<rparr>"

definition two_page_api :: "playlist_params \<Rightarrow> api_reply" where
  "two_page_api params =
     (if pageToken params = None
      then ApiData \<lparr>items = [video_A, video_B], nextPageToken = Some (str ''next'')\<rparr>
      else ApiData \<lparr>items = [video_C], nextPageToken = None\<rparr>)"

subsection \<open>Worlds of the publish stage\<close>



text \<open>The transcripts that the fetch stage wrote for the videos A and C.\<close>

definition content_A :: jsstring where
  "content_A = transcript_markdown env_B_empty video_A [hello_segment]"

definition content_C :: jsstring where
  "content_C = transcript_markdown env_B_empty video_C [hello_segment]"

text \<open>What the remote side holds for every video, and a remote side that accepts every update.\<close>

definition remote_snippet :: jsvalue where
  "remote_snippet =
     Object [(str ''title'', String (str ''Alpha'')),
             (str ''description'', String (str ''old text'')),
             (str ''categoryId'', String (str ''22'')),
             (str ''defaultLanguage'', String (str ''en''))]"

definition publish_env :: push_env where
  "publish_env =
     \<lparr>argv = [],
      tokens_exist = True,
      client_secret_found = True,
      credentials_parse = True,
      transcript_files = Some [(str ''Alpha.md'', Some content_A),
                               (str ''Gamma.md'', Some content_C)],
      description_files = [(str ''Alpha_description.txt'', Some (str ''About Alpha'')),
                           (str ''Gamma_description.txt'', Some (str ''About Gamma''))],
      pushed_json = None,
      pushed_json_writable = (\<lambda>n. True),
      videos_list = (\<lambda>vid. ListResolved [remote_snippet]),
      videos_update = (\<lambda>body. UpdateResolved body),
      push_clock = str ''2025-03-01T00:00:00.000Z''\<rparr>"

definition update_A :: update where
  "update_A =
     \<lparr>upd_videoId = str ''A'', upd_title = str ''Alpha'', upd_transcript = str ''Alpha.md'',
      upd_descriptionFile = str ''Alpha_description.txt'', upd_description = str ''About Alpha''\<rparr>"

definition update_C :: update where
  "update_C =
     \<lparr>upd_videoId = str ''C'', upd_title = str ''Gamma'', upd_transcript = str ''Gamma.md'',
      upd_descriptionFile = str ''Gamma_description.txt'', upd_description = str ''About Gamma''\<rparr>"

definition body_A :: jsvalue where
  "body_A = requestBody (str ''A'') remote_snippet (str ''About Alpha'')"

definition body_C :: jsvalue where
  "body_C = requestBody (str ''C'') remote_snippet (str ''About Gamma'')"

definition log_after_A :: push_log where
  "log_after_A = record_push publish_env update_A (loadPushLog None)"

definition log_after_AC :: push_log where
  "log_after_AC = record_push publish_env update_C log_after_A"




text \<open>The fields of the snippet that the publish stage sends.\<close>

definition managed_fields :: "jsstring list" where
  "managed_fields = [str ''title'', str ''description'', str ''categoryId'', str ''tags'']"

subsection \<open>Further worlds of the fetch and describe stages\<close>

text \<open>The world of the three videos in which the artifact of video A cannot be written.\<close>

definition env_write_fails :: fetch_env where
  "env_write_fails =
     env_B_empty\<lparr>file_writable :=
        (\<lambda>p. p \<noteq> path_join OUTPUT_DIR (transcript_filename video_A))\<rparr>"


text \<open>The paths of the artifacts of the describe stage and of the fetch stage.\<close>

definition description_path :: "jsstring \<Rightarrow> jsstring" where
  "description_path name = path_join DESCRIPTIONS_DIR (description_filename name)"


text \<open>
  A transcript as the fetch stage writes it, for a video whose title names a tutorial,
  a vlog and a game system.
\<close>

definition video_V :: video where
  "video_V = \<lparr>videoId = str ''V'', title = str ''Warmachine tutorial vlog'',
              publishedAt = str ''2025-01-16'', description = []\<rparr>"

definition content_V :: jsstring where
  "content_V = transcript_markdown env_B_empty video_V [hello_segment]"

definition five_tags :: "jsstring list" where
  "five_tags = [str ''miniaturepainting'', str ''hobbypainting'', str ''hobbytutorial'',
                str ''hobbyvlog'', str ''warmachine'']"

definition env_describe_V :: describe_env where
  "env_describe_V =
     \<lparr>transcripts_dir = Some [(str ''Warmachine_tutorial_vlog.md'', Some content_V)],
      description_writable = (\<lambda>p. True),
      processed_json = None,
      processed_json_writable = True,
      describe_clock = str ''2025-02-02T00:00:00.000Z''\<rparr>"

definition saved_log_V :: describe_log where
  "saved_log_V =
     stamp_describe_log (describe_clock env_describe_V)
       ((loadDescribeLog None)
          \<lparr>processed :=
             [(str ''Warmachine_tutorial_vlog.md'',
               \<lparr>descriptionFile = str ''Warmachine_tutorial_vlog_description.txt'',
                entry_category = str ''vlog'', entry_tags = five_tags,
                processedAt = describe_clock env_describe_V\<rparr>)],
           totalTranscripts := Some 1\<rparr>)"

text \<open>
  A world of the describe stage with the transcripts of A and C in which the
  description of A cannot be written, and the ledger its run saves.
\<close>

definition env_describe_fails :: describe_env where
  "env_describe_fails =
     \<lparr>transcripts_dir = Some [(str ''Alpha.md'', Some content_A), (str ''Gamma.md'', Some content_C)],
      description_writable = (\<lambda>p. p \<noteq> description_path (str ''Alpha.md'')),
      processed_json = None,
      processed_json_writable = True,
      describe_clock = str ''2025-02-02T00:00:00.000Z''\<rparr>"

definition saved_log_C :: describe_log where
  "saved_log_C =
     stamp_describe_log (describe_clock env_describe_fails)
       ((loadDescribeLog None)
          \<lparr>processed :=
             [(str ''Gamma.md'',
               \<lparr>descriptionFile = str ''Gamma_description.txt'',
                entry_category = category (fst (description_of content_C)),
                entry_tags = tags (fst (description_of content_C)),
                processedAt = describe_clock env_describe_fails\<rparr>)],
           totalTranscripts := Some 2\<rparr>)"







section \<open>Properties\<close>

subsection \<open>The ledger and the transcript request in the fetch stage\<close>

lemma has_entry_update:
  "has_entry (AList.update k v al) k' = (k' = k \<or> has_entry al k')"
  by (auto simp: has_entry_def update_conv')

lemma process_video_entries:
  assumes "process_video env st v = (es, Inr st')"
  shows "has_entry (downloaded st') k \<longleftrightarrow>
           has_entry (downloaded st) k
           \<or> (k = videoId v \<and> getTranscript (fetchTranscript env) (videoId v) \<noteq> None)"
  using assms
  by (auto simp: process_video_def Let_def has_entry_update split: if_splits option.splits)

lemma process_videos_entries:
  "process_videos env st vs = (es, Inr st') \<Longrightarrow>
   has_entry (downloaded st') k \<longleftrightarrow>
     has_entry (downloaded st) k
     \<or> (\<exists>v\<in>set vs. k = videoId v \<and> getTranscript (fetchTranscript env) (videoId v) \<noteq> None)"
proof (induction vs arbitrary: st es)
  case Nil
  then show ?case by simp
next
  case (Cons w ws)
  from Cons.prems obtain e1 st1 e2 where
    w: "process_video env st w = (e1, Inr st1)" and
    ws: "process_videos env st1 ws = (e2, Inr st')"
    by (auto split: prod.splits sum.splits)
  show ?case
    using Cons.IH [OF ws] process_video_entries [OF w, of k] by auto
qed

lemma process_video_requests:
  assumes "process_video env st v = (es, r)" and "\<not> has_entry (downloaded st) (videoId v)"
  shows "TranscriptRequested (videoId v) \<in> set es"
  using assms by (auto simp: process_video_def Let_def split: if_splits option.splits)

lemma process_videos_requests:
  "process_videos env st vs = (es, Inr st') \<Longrightarrow> v \<in> set vs \<Longrightarrow>
   \<not> has_entry (downloaded st) (videoId v) \<Longrightarrow> TranscriptRequested (videoId v) \<in> set es"
proof (induction vs arbitrary: st es)
  case Nil
  then show ?case by simp
next
  case (Cons w ws)
  from Cons.prems(1) obtain e1 st1 e2 where
    w: "process_video env st w = (e1, Inr st1)" and
    ws: "process_videos env st1 ws = (e2, Inr st')" and
    es: "es = e1 @ e2"
    by (auto split: prod.splits sum.splits)
  show ?case
  proof (cases "videoId w = videoId v")
    case True
    with process_video_requests [OF w] Cons.prems(3) es show ?thesis by simp
  next
    case False
    with Cons.prems(2) have "v \<in> set ws" by auto
    moreover have "\<not> has_entry (downloaded st1) (videoId v)"
      using process_video_entries [OF w, of "videoId v"] Cons.prems(3) False by auto
    ultimately show ?thesis using Cons.IH [OF ws] es by simp
  qed
qed


lemma durable_ledger_append:
  "durable_ledger l (es @ es') = durable_ledger (durable_ledger l es) es'"
  by (induction l es rule: durable_ledger.induct) simp_all




lemma main_fetch_completed:
  assumes "main_fetch env vs = (es, Inr s)"
  shows "\<exists>es0 st. process_videos env (fetch_start env) vs = (es0, Inr st)
           \<and> es = es0 @ [LedgerWritten (downloaded st), SummaryWritten s]
           \<and> s = make_summary vs st"
proof -
  obtain es0 r where loop: "process_videos env (fetch_start env) vs = (es0, r)"
    by (cases "process_videos env (fetch_start env) vs")
  show ?thesis
  proof (cases r)
    case (Inl e)
    with assms loop show ?thesis by (simp add: main_fetch_def)
  next
    case (Inr st)
    with assms loop show ?thesis by (auto simp: main_fetch_def split: if_splits)
  qed
qed

lemma getTranscript_None_iff:
  "getTranscript f vid = None \<longleftrightarrow>
     (\<exists>e. f vid = Rejected e) \<or> f vid = Resolved None \<or> f vid = Resolved (Some [])"
  by (auto simp: getTranscript_def split: transcript_reply.splits option.splits)

lemma process_video_unavailable:
  assumes "getTranscript (fetchTranscript env) (videoId v) = None"
    and "\<not> has_entry (downloaded st) (videoId v)"
  shows "process_video env st v =
           ([TranscriptRequested (videoId v)],
            Inr (st\<lparr>results := results st @
                       [\<lparr>result_videoId = videoId v, result_title = title v,
                         hasTranscript = False, filepath = None\<rparr>]\<rparr>))"
  using assms by (simp add: process_video_def)

text \<open>
  C10. Transcript retrieval is total over outcomes: a request that throws and a request
  that resolves to an empty segment list both make \<open>getTranscript\<close> return \<open>null\<close>, the
  loop of \<open>main\<close> cannot tell the two apart (the turn for that video has the same events
  and the same resulting state in both worlds), and the turn never fails.
\<close>

theorem getTranscript_total:
  assumes "fetchTranscript env1 (videoId v) = Rejected e"
    and "fetchTranscript env2 (videoId v) = Resolved (Some [])"
  shows "getTranscript (fetchTranscript env1) (videoId v) = None
       \<and> getTranscript (fetchTranscript env2) (videoId v) = None
       \<and> process_video env1 st v = process_video env2 st v
       \<and> (\<exists>st'. snd (process_video env1 st v) = Inr st')"
  using assms by (simp add: getTranscript_def process_video_def)

theorem getTranscript_total_witness:
  "fetchTranscript env_B_rejected (videoId video_B) = Rejected (str ''timeout'')
   \<and> fetchTranscript env_B_empty (videoId video_B) = Resolved (Some [])
   \<and> getTranscript (fetchTranscript env_B_rejected) (videoId video_B) = None
   \<and> getTranscript (fetchTranscript env_B_empty) (videoId video_B) = None
   \<and> process_video env_B_rejected empty_state video_B = process_video env_B_empty empty_state video_B"
  using getTranscript_total [of env_B_rejected video_B "str ''timeout''" env_B_empty empty_state]
  by (simp add: env_B_rejected_def env_B_empty_def video_B_def)

text \<open>
  C5. An item whose transcript request yields no transcript leaves no trace in the
  ledger and no artifact: the turn of the loop for it requests the transcript, records
  \<open>hasTranscript: false\<close> in the results of the summary and changes nothing else; after
  the run the ledger file has no entry under its id; and the next run, started from
  that ledger file, requests its transcript again.
\<close>

theorem unavailable_is_retried:
  assumes run1: "main_fetch env1 vs1 = (es1, Inr s1)"
    and in1: "v \<in> set vs1"
    and fresh: "\<not> has_entry (loadLog (downloaded_json env1)) (videoId v)"
    and unavailable: "getTranscript (fetchTranscript env1) (videoId v) = None"
    and ledger2: "downloaded_json env2 = Some (durable_ledger (loadLog (downloaded_json env1)) es1)"
    and run2: "main_fetch env2 vs2 = (es2, Inr s2)"
    and in2: "v \<in> set vs2"
  shows "(\<forall>st. \<not> has_entry (downloaded st) (videoId v) \<longrightarrow>
            process_video env1 st v =
              ([TranscriptRequested (videoId v)],
               Inr (st\<lparr>results := results st @
                       [\<lparr>result_videoId = videoId v, result_title = title v,
                         hasTranscript = False, filepath = None\<rparr>]\<rparr>)))
       \<and> \<not> has_entry (durable_ledger (loadLog (downloaded_json env1)) es1) (videoId v)
       \<and> TranscriptRequested (videoId v) \<in> set es2"
proof -
  from main_fetch_completed [OF run1] obtain e1 st1 where
    loop1: "process_videos env1 (fetch_start env1) vs1 = (e1, Inr st1)"
    and es1: "es1 = e1 @ [LedgerWritten (downloaded st1), SummaryWritten s1]"
    by blast
  have saved: "durable_ledger (loadLog (downloaded_json env1)) es1 = downloaded st1"
    using es1 by (simp add: durable_ledger_append)
  have absent: "\<not> has_entry (downloaded st1) (videoId v)"
    using process_videos_entries [OF loop1, of "videoId v"] fresh unavailable
    by (auto simp: fetch_start_def)
  from main_fetch_completed [OF run2] obtain e2 st2 where
    loop2: "process_videos env2 (fetch_start env2) vs2 = (e2, Inr st2)"
    and es2: "es2 = e2 @ [LedgerWritten (downloaded st2), SummaryWritten s2]"
    by blast
  have "\<not> has_entry (downloaded (fetch_start env2)) (videoId v)"
    using absent saved ledger2 by (simp add: fetch_start_def loadLog_def)
  then have "TranscriptRequested (videoId v) \<in> set e2"
    by (rule process_videos_requests [OF loop2 in2])
  moreover have "\<forall>st. \<not> has_entry (downloaded st) (videoId v) \<longrightarrow>
            process_video env1 st v =
              ([TranscriptRequested (videoId v)],
               Inr (st\<lparr>results := results st @
                       [\<lparr>result_videoId = videoId v, result_title = title v,
                         hasTranscript = False, filepath = None\<rparr>]\<rparr>))"
    using unavailable by (simp add: process_video_def)
  ultimately show ?thesis using es2 absent saved by simp
qed

lemma ids_differ:
  "str ''A'' \<noteq> str ''B''" "str ''A'' \<noteq> str ''C''" "str ''B'' \<noteq> str ''C''"
  "str ''B'' \<noteq> str ''A''" "str ''C'' \<noteq> str ''A''" "str ''C'' \<noteq> str ''B''"
  by (simp_all add: str_def)

lemma loop_ABC:
  "process_videos env_B_empty (fetch_start env_B_empty) [video_A, video_B, video_C] =
     (events_ABC, Inr state_ABC)"
  by (simp add: process_video_def fetch_start_def loadLog_def getTranscript_def has_entry_def
      env_B_empty_def video_A_def video_B_def video_C_def ledger_AC_def Let_def ids_differ
      events_ABC_def state_ABC_def)

lemma main_ABC:
  "main_fetch env_B_empty [video_A, video_B, video_C] =
     (events_ABC @ [LedgerWritten ledger_AC,
                    SummaryWritten (make_summary [video_A, video_B, video_C] state_ABC)],
      Inr (make_summary [video_A, video_B, video_C] state_ABC))"
  unfolding main_fetch_def loop_ABC by (simp add: env_B_empty_def state_ABC_def)

lemma loop_second_run:
  "process_videos env_second_run (fetch_start env_second_run) [video_A, video_B, video_C] =
     ([TranscriptRequested (str ''B'')], Inr state_second_run)"
  by (simp add: process_video_def fetch_start_def loadLog_def getTranscript_def has_entry_def
      env_second_run_def env_B_empty_def video_A_def video_B_def video_C_def ledger_AC_def
      Let_def ids_differ state_second_run_def)

lemma main_second_run:
  "main_fetch env_second_run [video_A, video_B, video_C] =
     ([TranscriptRequested (str ''B''), LedgerWritten ledger_AC,
       SummaryWritten (make_summary [video_A, video_B, video_C] state_second_run)],
      Inr (make_summary [video_A, video_B, video_C] state_second_run))"
  unfolding main_fetch_def loop_second_run
  by (simp add: env_second_run_def env_B_empty_def state_second_run_def)

lemma durable_ABC:
  "durable_ledger l (events_ABC @ [LedgerWritten ledger_AC, SummaryWritten s]) = ledger_AC"
  by (simp add: events_ABC_def)

theorem unavailable_is_retried_witness:
  "getTranscript (fetchTranscript env_B_empty) (videoId video_B) = None
   \<and> \<not> has_entry (durable_ledger (loadLog (downloaded_json env_B_empty))
                    (fst (main_fetch env_B_empty [video_A, video_B, video_C])))
         (videoId video_B)
   \<and> TranscriptRequested (videoId video_B)
       \<in> set (fst (main_fetch env_second_run [video_A, video_B, video_C]))"
proof -
  have unavailable: "getTranscript (fetchTranscript env_B_empty) (videoId video_B) = None"
    by (simp add: getTranscript_def env_B_empty_def video_B_def)
  have fresh: "\<not> has_entry (loadLog (downloaded_json env_B_empty)) (videoId video_B)"
    by (simp add: has_entry_def loadLog_def env_B_empty_def)
  have ledger2: "downloaded_json env_second_run =
      Some (durable_ledger (loadLog (downloaded_json env_B_empty))
             (events_ABC @ [LedgerWritten ledger_AC,
                SummaryWritten (make_summary [video_A, video_B, video_C] state_ABC)]))"
    by (simp add: durable_ABC) (simp add: env_second_run_def)
  have member: "video_B \<in> set [video_A, video_B, video_C]" by simp
  note retried = unavailable_is_retried
    [OF main_ABC member fresh unavailable ledger2 main_second_run member]
  show ?thesis
    unfolding main_ABC main_second_run fst_conv using unavailable retried by blast
qed

subsection \<open>Pagination\<close>

lemma push_items_unlimited: "push_items None videos its = Inr (videos @ its)"
  by (induction its arbitrary: videos) simp_all

lemma push_items_zero: "push_items (Some 0) videos its = Inr (videos @ its)"
  by (induction its arbitrary: videos) simp_all

lemma push_items_limited:
  "0 < m \<Longrightarrow> length videos < m \<Longrightarrow>
   push_items (Some m) videos its =
     (if m \<le> length videos + length its then Inl (take m (videos @ its))
      else Inr (videos @ its))"
proof (induction its arbitrary: videos)
  case Nil
  then show ?case by simp
next
  case (Cons item rest)
  show ?case
  proof (cases "m \<le> length (videos @ [item])")
    case True
    with Cons.prems have "m = Suc (length videos)" by simp
    then show ?thesis using Cons.prems by simp
  next
    case False
    then have "length (videos @ [item]) < m" by simp
    from Cons.IH [OF Cons.prems(1) this] False show ?thesis by simp
  qed
qed

lemma pages_fetched_pos: "pages \<noteq> [] \<Longrightarrow> 0 < pages_fetched m pages"
  by (cases pages) simp_all

lemma loop_limited:
  "serves api pid tok pages \<Longrightarrow> 0 < m \<Longrightarrow> length videos < m \<Longrightarrow>
   getPlaylistVideos_loop api pid (Some m) videos tok sent =
     Some (Inr (take m (videos @ all_items pages),
                sent @ map (playlist_request pid)
                         (tok # map nextPageToken
                                  (take (pages_fetched (m - length videos) pages - 1) pages))))"
proof (induction api pid tok pages arbitrary: videos sent rule: serves.induct)
  case (1 api pid tok)
  then show ?case by simp
next
  case (2 api pid tok p)
  then show ?case
    by (subst getPlaylistVideos_loop.simps)
       (simp add: push_items_limited all_items_def)
next
  case (3 api pid tok p q ps)
  from "3.prems"(1) have reply: "api (playlist_request pid tok) = ApiData p"
    and more: "truthy (nextPageToken p)"
    and rest: "serves api pid (nextPageToken p) (q # ps)"
    by simp_all
  show ?case
  proof (cases "m \<le> length videos + length (items p)")
    case True
    then show ?thesis
      using reply "3.prems"(2,3)
      by (subst getPlaylistVideos_loop.simps) (simp add: push_items_limited all_items_def)
  next
    case False
    then have short: "length (videos @ items p) < m" by simp
    have n: "0 < pages_fetched (m - length (videos @ items p)) (q # ps)"
      by (rule pages_fetched_pos) simp
    have step: "getPlaylistVideos_loop api pid (Some m) videos tok sent =
        getPlaylistVideos_loop api pid (Some m) (videos @ items p) (nextPageToken p)
          (sent @ [playlist_request pid tok])"
      using reply more False "3.prems"(2,3)
      by (subst getPlaylistVideos_loop.simps) (simp add: push_items_limited)
    have fetched: "pages_fetched (m - length videos) (p # q # ps) =
        Suc (pages_fetched (m - length (videos @ items p)) (q # ps))"
      using False by (simp add: diff_diff_left)
    obtain k where k: "pages_fetched (m - length (videos @ items p)) (q # ps) = Suc k"
      using n by (cases "pages_fetched (m - length (videos @ items p)) (q # ps)") simp_all
    show ?thesis
      unfolding step "3.IH" [OF rest "3.prems"(2) short] fetched k
      by (simp add: all_items_def)
  qed
qed

lemma loop_unlimited:
  "serves api pid tok pages \<Longrightarrow>
   getPlaylistVideos_loop api pid None videos tok sent =
     Some (Inr (videos @ all_items pages,
                sent @ map (playlist_request pid) (tok # map nextPageToken (butlast pages))))"
proof (induction api pid tok pages arbitrary: videos sent rule: serves.induct)
  case (1 api pid tok)
  then show ?case by simp
next
  case (2 api pid tok p)
  then show ?case
    by (subst getPlaylistVideos_loop.simps) (simp add: push_items_unlimited all_items_def)
next
  case (3 api pid tok p q ps)
  from "3.prems" have reply: "api (playlist_request pid tok) = ApiData p"
    and more: "truthy (nextPageToken p)"
    and rest: "serves api pid (nextPageToken p) (q # ps)"
    by simp_all
  have step: "getPlaylistVideos_loop api pid None videos tok sent =
      getPlaylistVideos_loop api pid None (videos @ items p) (nextPageToken p)
        (sent @ [playlist_request pid tok])"
    using reply more
    by (subst getPlaylistVideos_loop.simps) (simp add: push_items_unlimited)
  show ?case unfolding step "3.IH" [OF rest] by (simp add: all_items_def)
qed

lemma loop_zero:
  "serves api pid tok pages \<Longrightarrow>
   getPlaylistVideos_loop api pid (Some 0) videos tok sent =
     Some (Inr (videos @ all_items pages,
                sent @ map (playlist_request pid) (tok # map nextPageToken (butlast pages))))"
proof (induction api pid tok pages arbitrary: videos sent rule: serves.induct)
  case (1 api pid tok)
  then show ?case by simp
next
  case (2 api pid tok p)
  then show ?case
    by (subst getPlaylistVideos_loop.simps) (simp add: push_items_zero all_items_def)
next
  case (3 api pid tok p q ps)
  from "3.prems" have reply: "api (playlist_request pid tok) = ApiData p"
    and more: "truthy (nextPageToken p)"
    and rest: "serves api pid (nextPageToken p) (q # ps)"
    by simp_all
  have step: "getPlaylistVideos_loop api pid (Some 0) videos tok sent =
      getPlaylistVideos_loop api pid (Some 0) (videos @ items p) (nextPageToken p)
        (sent @ [playlist_request pid tok])"
    using reply more
    by (subst getPlaylistVideos_loop.simps) (simp add: push_items_zero)
  show ?case unfolding step "3.IH" [OF rest] by (simp add: all_items_def)
qed

lemma pages_fetched_le: "pages_fetched m pages \<le> length pages"
  by (induction m pages rule: pages_fetched.induct) auto

lemma pages_fetched_before:
  "0 < m \<Longrightarrow> length (all_items (take (pages_fetched m pages - 1) pages)) < m"
proof (induction m pages rule: pages_fetched.induct)
  case (1 m)
  then show ?case by (simp add: all_items_def)
next
  case (2 m p ps)
  show ?case
  proof (cases "m \<le> length (items p) \<or> ps = []")
    case True
    then show ?thesis using "2.prems" by (simp add: all_items_def)
  next
    case False
    then have "0 < m - length (items p)" by simp
    from "2.IH" [OF False this] False
    obtain k where k: "pages_fetched (m - length (items p)) ps = Suc k"
      using pages_fetched_pos [of ps "m - length (items p)"]
      by (cases "pages_fetched (m - length (items p)) ps") auto
    with "2.IH" [OF False \<open>0 < m - length (items p)\<close>] False show ?thesis
      by (simp add: all_items_def)
  qed
qed

lemma pages_fetched_early:
  "pages_fetched m pages < length pages \<Longrightarrow>
   m \<le> length (all_items (take (pages_fetched m pages) pages))"
proof (induction m pages rule: pages_fetched.induct)
  case (1 m)
  then show ?case by simp
next
  case (2 m p ps)
  show ?case
  proof (cases "m \<le> length (items p) \<or> ps = []")
    case True
    then show ?thesis using "2.prems" by (auto simp: all_items_def)
  next
    case False
    with "2.prems" have "pages_fetched (m - length (items p)) ps < length ps" by simp
    from "2.IH" [OF False this] False show ?thesis by (simp add: all_items_def)
  qed
qed

text \<open>
  C7 (as amended). The requests ask for pages of 50 items; the first one carries no
  token and each later one the token of the page before it. When the remote side
  serves a finite chain of pages, the loop returns: without a maximum, or with the
  maximum 0, all items in catalog order after one request per page; with a positive
  maximum \<open>m\<close>, exactly the first \<open>min m total\<close> items, and the requests stop with the
  page on which the \<open>m\<close>-th item arrives: fewer than \<open>m\<close> items came before the last
  requested page, and pages are left unrequested only when \<open>m\<close> items have arrived.
\<close>

theorem getPlaylistVideos_first_items:
  assumes "serves api pid None pages" and "0 < m"
  shows "getPlaylistVideos api pid (Some m) =
           Some (Inr (take (min m (length (all_items pages))) (all_items pages),
                      map (playlist_request pid)
                        (None # map nextPageToken (take (pages_fetched m pages - 1) pages))))
       \<and> length (all_items (take (pages_fetched m pages - 1) pages)) < m
       \<and> pages_fetched m pages \<le> length pages
       \<and> (pages_fetched m pages < length pages \<longrightarrow>
            m \<le> length (all_items (take (pages_fetched m pages) pages)))
       \<and> getPlaylistVideos api pid None =
           Some (Inr (all_items pages,
                      map (playlist_request pid) (None # map nextPageToken (butlast pages))))
       \<and> getPlaylistVideos api pid (Some 0) = getPlaylistVideos api pid None
       \<and> maxResults (playlist_request pid tok) = 50"
proof -
  have "take (min m (length (all_items pages))) (all_items pages) = take m (all_items pages)"
    by (simp add: min_def)
  then show ?thesis
    using loop_limited [OF assms(1,2), of "[]" "[]"] loop_unlimited [OF assms(1), of "[]" "[]"]
      loop_zero [OF assms(1), of "[]" "[]"] pages_fetched_before [OF assms(2), of pages]
      pages_fetched_le [of m pages] pages_fetched_early [of m pages] assms(2)
    by (simp add: getPlaylistVideos_def playlist_request_def)
qed

lemma serves_two_pages: "serves two_page_api (str ''UU'') None two_pages"
  by (simp add: two_pages_def two_page_api_def playlist_request_def truthy_def str_def)

theorem getPlaylistVideos_first_items_witness:
  "serves two_page_api (str ''UU'') None two_pages \<and> (0::nat) < 1
   \<and> getPlaylistVideos two_page_api (str ''UU'') (Some 1) =
       Some (Inr ([video_A], [playlist_request (str ''UU'') None]))
   \<and> getPlaylistVideos two_page_api (str ''UU'') None =
       Some (Inr ([video_A, video_B, video_C],
                  [playlist_request (str ''UU'') None,
                   playlist_request (str ''UU'') (Some (str ''next''))]))"
  using getPlaylistVideos_first_items [OF serves_two_pages, of 1] serves_two_pages
  by (simp add: two_pages_def all_items_def)

text \<open>
  The claim as stated fails for the maximum 0: \<open>maxResults && ...\<close> is false for 0, so
  the two items of a one-page catalog are both returned, not the first \<open>min 0 2 = 0\<close>.
\<close>

theorem getPlaylistVideos_zero_counterexample:
  "getPlaylistVideos one_page_api (str ''UU'') (Some 0) =
     Some (Inr ([video_A, video_B], [playlist_request (str ''UU'') None]))
   \<and> take (min 0 (length [video_A, video_B])) [video_A, video_B] = []"
  unfolding getPlaylistVideos_def
  by (subst getPlaylistVideos_loop.simps) (simp add: one_page_api_def truthy_def)

subsection \<open>Ledger writes of the publish stage\<close>


lemma file_writes_append: "file_writes (es @ es') = file_writes es + file_writes es'"
  by (simp add: file_writes_def)














subsection \<open>Runs of the publish stage in the example worlds\<close>

lemma video_id_A: "getVideoIdFromTranscript content_A = Some (str ''A'')"
  by (simp add: getVideoIdFromTranscript_def content_A_def transcript_markdown_def video_A_def
      str_def startsWith_def is_space_def)

lemma video_id_C: "getVideoIdFromTranscript content_C = Some (str ''C'')"
  by (simp add: getVideoIdFromTranscript_def content_C_def transcript_markdown_def video_C_def
      str_def startsWith_def is_space_def)

lemma title_A: "getTitleFromTranscript content_A = str ''Alpha''"
  by (simp add: getTitleFromTranscript_def first_line_title_def content_A_def
      transcript_markdown_def video_A_def str_def is_space_def trim_def Let_def)

lemma title_C: "getTitleFromTranscript content_C = str ''Gamma''"
  by (simp add: getTitleFromTranscript_def first_line_title_def content_C_def
      transcript_markdown_def video_C_def str_def is_space_def trim_def Let_def)

lemma description_filenames:
  "description_filename (str ''Alpha.md'') = str ''Alpha_description.txt''"
  "description_filename (str ''Gamma.md'') = str ''Gamma_description.txt''"
  by (simp_all add: description_filename_def str_def startsWith_def)

lemma md_files:
  "endsWith (str ''Alpha.md'') (str ''.md'')" "endsWith (str ''Gamma.md'') (str ''.md'')"
  by (simp_all add: endsWith_def str_def)

lemma file_names_differ:
  "str ''Alpha_description.txt'' \<noteq> str ''Gamma_description.txt''"
  "str ''Gamma_description.txt'' \<noteq> str ''Alpha_description.txt''"
  by (simp_all add: str_def)

lemma updates_publish_env:
  "buildUpdateList None (loadPushLog None) (description_files publish_env)
     [(str ''Alpha.md'', Some content_A), (str ''Gamma.md'', Some content_C)] =
   Inr [update_A, update_C]"
  by (simp add: buildUpdateList_def publish_env_def md_files video_id_A video_id_C title_A
      title_C description_filenames file_names_differ truthy_def has_entry_def loadPushLog_def
      update_A_def update_C_def)

lemma pending_publish: "pending_updates publish_env = Inr [update_A, update_C]"
  using updates_publish_env by (simp add: pending_updates_def publish_env_def)

lemma listing_publish: "listing publish_env = [DirectoryRead (str ''./transcripts'')]"
  by (simp add: listing_def publish_env_def)

lemma publish_env_fields:
  "argv publish_env = []" "tokens_exist publish_env" "client_secret_found publish_env"
  "credentials_parse publish_env"
  by (simp_all add: publish_env_def)

lemma publish_loop:
  "push_updates publish_env (push_start publish_env) [update_A, update_C] =
     ([VideoRead (str ''A''), VideoUpdated (str ''A'') body_A, LedgerWritten log_after_A,
       VideoRead (str ''C''), VideoUpdated (str ''C'') body_C, LedgerWritten log_after_AC],
      \<lparr>pushLog = log_after_AC, successCount = 2, errorCount = 0\<rparr>)"
  by (simp add: push_update_def updateVideoDescription_def getVideoDetails_def DRY_RUN_def
      push_start_def log_after_A_def log_after_AC_def body_A_def body_C_def turn_def)
     (simp add: publish_env_def update_A_def update_C_def remote_snippet_def)

lemma main_publish:
  "main_push publish_env =
     ([DirectoryRead (str ''./transcripts''),
       VideoRead (str ''A''), VideoUpdated (str ''A'') body_A, LedgerWritten log_after_A,
       VideoRead (str ''C''), VideoUpdated (str ''C'') body_C, LedgerWritten log_after_AC],
      Summary 2 0 2)"
  by (simp add: main_push_def pending_publish listing_publish publish_loop publish_env_fields
      LIST_ONLY_def getAuthClient_def del: push_updates.simps)










subsection \<open>Credentials and the write-back of the publish stage\<close>






lemma get_prop_update_snippet:
  "get_prop (Object (update_snippet cur new)) k =
     (if k = str ''title'' then get_prop cur (str ''title'')
      else if k = str ''description'' then String new
      else if k = str ''categoryId'' then get_prop cur (str ''categoryId'')
      else if k = str ''tags''
      then (if js_truthy (get_prop cur (str ''tags'')) then get_prop cur (str ''tags'')
            else Array [])
      else Undefined)"
  by (simp add: update_snippet_def str_def)

text \<open>
  C3 (as amended). When the video is found and the update is accepted, the publish
  stage reads the video once and writes back once, and the snippet it writes back has
  exactly four fields: the description, replaced by the new text; the title and the
  category id, as they were read; and the tags as they were read, or an empty list
  when the video had none. No other field of the remote metadata is sent.
\<close>

theorem update_sends_four_fields:
  assumes "videos_list env vid = ListResolved (currentSnippet # others)"
    and "js_truthy currentSnippet"
    and "videos_update env (requestBody vid currentSnippet newDescription) = UpdateResolved data"
  shows "updateVideoDescription env vid newDescription =
           ([VideoRead vid, VideoUpdated vid (requestBody vid currentSnippet newDescription)],
            Inr data)
       \<and> get_prop (requestBody vid currentSnippet newDescription) (str ''id'') = String vid
       \<and> get_prop (get_prop (requestBody vid currentSnippet newDescription) (str ''snippet''))
           (str ''description'') = String newDescription
       \<and> get_prop (get_prop (requestBody vid currentSnippet newDescription) (str ''snippet''))
           (str ''title'') = get_prop currentSnippet (str ''title'')
       \<and> get_prop (get_prop (requestBody vid currentSnippet newDescription) (str ''snippet''))
           (str ''categoryId'') = get_prop currentSnippet (str ''categoryId'')
       \<and> get_prop (get_prop (requestBody vid currentSnippet newDescription) (str ''snippet''))
           (str ''tags'') =
           (if js_truthy (get_prop currentSnippet (str ''tags''))
            then get_prop currentSnippet (str ''tags'') else Array [])
       \<and> (\<forall>k. k \<notin> set managed_fields \<longrightarrow>
             get_prop (get_prop (requestBody vid currentSnippet newDescription) (str ''snippet''))
               k = Undefined)"
proof -
  have snippet: "get_prop (requestBody vid currentSnippet newDescription) (str ''snippet'') =
      Object (update_snippet currentSnippet newDescription)"
    by (simp add: requestBody_def str_def)
  have run: "updateVideoDescription env vid newDescription =
           ([VideoRead vid, VideoUpdated vid (requestBody vid currentSnippet newDescription)],
            Inr data)"
    using assms by (simp add: updateVideoDescription_def getVideoDetails_def)
  have id: "get_prop (requestBody vid currentSnippet newDescription) (str ''id'') = String vid"
    by (simp add: requestBody_def)
  show ?thesis
    unfolding snippet get_prop_update_snippet
    using run id by (simp add: managed_fields_def) (simp add: str_def)
qed

theorem update_sends_four_fields_witness:
  "videos_list publish_env (str ''A'') = ListResolved [remote_snippet]
   \<and> js_truthy remote_snippet
   \<and> updateVideoDescription publish_env (str ''A'') (str ''About Alpha'') =
       ([VideoRead (str ''A''), VideoUpdated (str ''A'') body_A], Inr body_A)
   \<and> get_prop (get_prop body_A (str ''snippet'')) (str ''description'')
       = String (str ''About Alpha'')
   \<and> get_prop (get_prop body_A (str ''snippet'')) (str ''title'') = String (str ''Alpha'')
   \<and> get_prop (get_prop body_A (str ''snippet'')) (str ''tags'') = Array []"
proof -
  have found: "videos_list publish_env (str ''A'') = ListResolved (remote_snippet # [])"
    by (simp add: publish_env_def)
  have object: "js_truthy remote_snippet"
    by (simp add: remote_snippet_def)
  have accepted: "videos_update publish_env
      (requestBody (str ''A'') remote_snippet (str ''About Alpha'')) = UpdateResolved body_A"
    by (simp add: publish_env_def body_A_def)
  have title_read: "get_prop remote_snippet (str ''title'') = String (str ''Alpha'')"
    by (simp add: remote_snippet_def)
  have no_tags: "\<not> js_truthy (get_prop remote_snippet (str ''tags''))"
    by (simp add: remote_snippet_def str_def)
  from update_sends_four_fields [OF found object accepted] found object title_read no_tags
  show ?thesis by (simp add: body_A_def)
qed

text \<open>
  The claim as stated fails: the remote metadata of video A has a default language,
  and the snippet written back for A has no such field.
\<close>

theorem update_drops_fields_counterexample:
  "VideoUpdated (str ''A'') body_A \<in> set (fst (main_push publish_env))
   \<and> videos_list publish_env (str ''A'') = ListResolved [remote_snippet]
   \<and> get_prop remote_snippet (str ''defaultLanguage'') = String (str ''en'')
   \<and> get_prop (get_prop body_A (str ''snippet'')) (str ''defaultLanguage'') = Undefined"
  by (simp add: main_publish)
     (simp add: publish_env_def remote_snippet_def body_A_def requestBody_def
        update_snippet_def str_def)

subsection \<open>Skipping, failure and flushing across the stages\<close>








lemma main_describe_fails:
  "main_describe env_describe_fails =
     ([DirectoryRead (str ''./transcripts''),
       FileWritten (description_path (str ''Gamma.md'')) (snd (description_of content_C)),
       LedgerWritten saved_log_C],
      Inr \<lparr>summary_processed = 1, summary_skipped_files = 0, summary_total = 2\<rparr>)"
  by (simp add: main_describe_def env_describe_fails_def md_files describe_start_def
      describe_file_def has_entry_def loadDescribeLog_def description_filenames
      description_path_def saved_log_C_def Let_def case_prod_beta path_join_def
      file_names_differ)
     (simp add: numeral_2_eq_2)

subsection \<open>What a run does for the items its ledger records\<close>


lemma no_file_written: "file_writes es = 0 \<longleftrightarrow> (\<forall>p c. FileWritten p c \<notin> set es)"
proof (induction es)
  case Nil
  then show ?case by (simp add: file_writes_def)
next
  case (Cons e es)
  then show ?case by (cases e) (auto simp: file_writes_def)
qed



























subsection \<open>Failure of an artifact write\<close>

text \<open>
  C6. The claim holds in the describe and publish stages, whose loop bodies are inside
  \<open>try\<close>. The loop of the fetch stage has no \<open>try\<close>: in the world where videos A and C
  both have a transcript and the artifact of A cannot be written, \<open>main\<close> is rejected
  at A. The transcript of C is never requested, the ledger is not written and no
  summary is produced. In the like world of the describe stage, where the description
  of A cannot be written, the run goes on to C, saves the ledger and reports its counts.
\<close>

theorem fetch_write_failure_aborts:
  "main_fetch env_write_fails [video_A, video_C] =
     ([TranscriptRequested (str ''A'')],
      Inl (WriteFailed (path_join OUTPUT_DIR (transcript_filename video_A))))
   \<and> getTranscript (fetchTranscript env_write_fails) (videoId video_C) = Some [hello_segment]
   \<and> file_writable env_write_fails (path_join OUTPUT_DIR (transcript_filename video_C))
   \<and> main_describe env_describe_fails =
       ([DirectoryRead (str ''./transcripts''),
         FileWritten (description_path (str ''Gamma.md'')) (snd (description_of content_C)),
         LedgerWritten saved_log_C],
        Inr \<lparr>summary_processed = 1, summary_skipped_files = 0, summary_total = 2\<rparr>)"
proof -
  have fetch: "main_fetch env_write_fails [video_A, video_C] =
     ([TranscriptRequested (str ''A'')],
      Inl (WriteFailed (path_join OUTPUT_DIR (transcript_filename video_A))))
   \<and> getTranscript (fetchTranscript env_write_fails) (videoId video_C) = Some [hello_segment]
   \<and> file_writable env_write_fails (path_join OUTPUT_DIR (transcript_filename video_C))"
    by (simp add: main_fetch_def process_video_def fetch_start_def loadLog_def
        getTranscript_def has_entry_def env_write_fails_def env_B_empty_def Let_def
        video_A_def video_C_def ids_differ path_join_def transcript_filename_def
        sanitizeFilename_def str_def forbidden_in_filename_def is_space_def)
  with main_describe_fails show ?thesis by simp
qed

subsection \<open>When the ledger is written\<close>






subsection \<open>Running a stage again\<close>


















subsection \<open>Artifact paths\<close>

lemma files_after_append: "files_after fs (es @ es') = files_after (files_after fs es) es'"
proof (induction es arbitrary: fs)
  case Nil
  then show ?case by simp
next
  case (Cons e es)
  then show ?case by (cases e) (simp_all add: fun_upd_def)
qed











subsection \<open>Hashtags of the describe stage\<close>

lemma parse_V:
  "parseTranscript content_V =
     \<lparr>meta_title = str ''Warmachine tutorial vlog'', meta_transcript = str ''hello''\<rparr>"
  by (simp add: parseTranscript_def first_line_title_def decodeHtml_def replace_all_def
      content_V_def transcript_markdown_def video_V_def env_B_empty_def formatTranscript_def
      segment_text_def hello_segment_def truthy_def trim_def is_space_def startsWith_def
      str_def Let_def)

lemma categorize_V:
  "categorizeVideo (str ''Warmachine tutorial vlog'') (str ''hello'') =
     \<lparr>category = str ''vlog'', tags = five_tags\<rparr>"
  unfolding categorizeVideo_def Let_def
  by (simp add: push_if_def toLowerCase_def lower_unit_def startsWith_def five_tags_def str_def)

lemma description_of_V:
  "description_of content_V =
     (\<lparr>category = str ''vlog'', tags = five_tags\<rparr>,
      generateSummary (str ''Warmachine tutorial vlog'') (str ''hello'') (str ''vlog'')
      @ [0x0A, 0x0A] @ link_block
      @ str ''#miniaturepainting #hobbypainting #hobbytutorial #hobbyvlog #warmachine''
      @ [0x0A])"
proof -
  have parsed: "meta_title (parseTranscript content_V) = str ''Warmachine tutorial vlog''"
    "meta_transcript (parseTranscript content_V) = str ''hello''"
    by (simp_all add: parse_V)
  have line: "join (str '' '') (map (\<lambda>t. str ''#'' @ t) five_tags) =
      str ''#miniaturepainting #hobbypainting #hobbytutorial #hobbyvlog #warmachine''"
    by (simp add: five_tags_def str_def)
  show ?thesis
    unfolding description_of_def Let_def parsed categorize_V
    by (simp add: generateDescription_def line)
qed

lemma description_filename_V:
  "description_filename (str ''Warmachine_tutorial_vlog.md'') =
     str ''Warmachine_tutorial_vlog_description.txt''"
  by (simp add: description_filename_def str_def startsWith_def)

lemma md_file_V: "endsWith (str ''Warmachine_tutorial_vlog.md'') (str ''.md'')"
  by (simp add: endsWith_def str_def)

lemma main_describe_V:
  "main_describe env_describe_V =
     ([DirectoryRead (str ''./transcripts''),
       FileWritten (str ''descriptions/Warmachine_tutorial_vlog_description.txt'')
         (snd (description_of content_V)),
       LedgerWritten saved_log_V],
      Inr \<lparr>summary_processed = 1, summary_skipped_files = 0, summary_total = 1\<rparr>)"
  by (simp add: main_describe_def env_describe_V_def md_file_V describe_start_def
      describe_file_def has_entry_def loadDescribeLog_def description_filename_V
      description_of_V saved_log_V_def Let_def)
     (simp add: path_join_def DESCRIPTIONS_DIR_def str_def)

text \<open>
  C9. The description tool of the MCP server caps the hashtags at 3, lower-cases them
  and strips their white space. The describe stage does not: it writes one hashtag for
  each of the up to 5 tags of the classifier. For the transcript of a video titled
  \<open>Warmachine tutorial vlog\<close> the artifact it writes ends with a line of five hashtags;
  the tool of the MCP server gives three for the same tags.
\<close>

theorem describe_stage_five_hashtags:
  "main_describe env_describe_V =
     ([DirectoryRead (str ''./transcripts''),
       FileWritten (str ''descriptions/Warmachine_tutorial_vlog_description.txt'')
         (snd (description_of content_V)),
       LedgerWritten saved_log_V],
      Inr \<lparr>summary_processed = 1, summary_skipped_files = 0, summary_total = 1\<rparr>)
   \<and> snd (description_of content_V) =
       generateSummary (str ''Warmachine tutorial vlog'') (str ''hello'') (str ''vlog'')
       @ [0x0A, 0x0A] @ link_block
       @ str ''#miniaturepainting #hobbypainting #hobbytutorial #hobbyvlog #warmachine''
       @ [0x0A]
   \<and> hashtag_line (Some five_tags) =
       str ''#miniaturepainting #hobbypainting #hobbytutorial'' @ [0x0A]"
proof -
  have mcp: "hashtag_line (Some five_tags) =
       str ''#miniaturepainting #hobbypainting #hobbytutorial'' @ [0x0A]"
    by (simp add: hashtag_line_def five_tags_def toLowerCase_def lower_unit_def is_space_def
        str_def)
  show ?thesis
    using main_describe_V mcp by (simp add: description_of_V)
qed

end
